theory Spec2Isabelle
  imports Complex_Main "HOL-Library.Sublist"
begin

section \<open>RaphLoop: the iteration-and-orchestration engine\<close>

text \<open>
  A shallow embedding of the TypeScript sources of the engine: the specialist base class
  \<^verbatim>\<open>SpecialistAgent\<close> (\<^verbatim>\<open>src/core/specialist_agent.ts\<close>), the
  \<^verbatim>\<open>MultiAgentOrchestrator\<close> and the type declarations
  (\<^verbatim>\<open>src/core/multi_agent_orchestrator.ts\<close>), the \<^verbatim>\<open>EnhancedIterationEngine\<close> with its
  execution memory (\<^verbatim>\<open>src/unnamed/part_003\<close>), the \<^verbatim>\<open>WebDevelopmentSpecialistAgent\<close>
  and the \<^verbatim>\<open>RaphLoopProtocol\<close> (\<^verbatim>\<open>src/unnamed/part_004\<close>), and the
  \<^verbatim>\<open>IterationEngine\<close> and the \<^verbatim>\<open>VerificationManager\<close> (\<^verbatim>\<open>src/README_v2.md\<close>).

  Conventions of the embedding.
  \<^item> A JavaScript \<^verbatim>\<open>number\<close> that carries a fraction (a confidence, a score, a
    similarity) is a \<^typ>\<open>real\<close>: arithmetic is exact, the rounding of IEEE doubles is not
    modelled. Counters and time stamps are \<^typ>\<open>int\<close>; a count that is only ever used as a
    count is a \<^typ>\<open>nat\<close>.
  \<^item> A JavaScript string is a \<^typ>\<open>string\<close>; \<^verbatim>\<open>s.length\<close> is the length of the list.
    \<^verbatim>\<open>toLowerCase\<close> and the white space of \<^verbatim>\<open>\s\<close> are the ASCII ones.
  \<^item> An exception is a value: a call that may throw returns \<open>string + 'a\<close>, with
    \<open>Inl\<close> carrying the message of the error.
  \<^item> \<^verbatim>\<open>console.log\<close> output, \<^verbatim>\<open>Date.now()\<close> and the metadata built from them are left out.
\<close>

subsection \<open>Types (\<^verbatim>\<open>types.ts\<close>, in \<^verbatim>\<open>src/core/multi_agent_orchestrator.ts\<close>)\<close>

text \<open>\<^verbatim>\<open>ErrorCategory.TYPE\<close> is \<open>EC_TYPE\<close>: \<open>TYPE\<close> is reserved syntax.\<close>

datatype ErrorCategory =
  SYNTAX | EC_TYPE | DEPENDENCY | LOGIC | TEST | BUILD | LINT | RUNTIME | OTHER

datatype FixType =
  ADD_IMPORT | REMOVE_IMPORT | UPDATE_TYPE | FIX_SYNTAX | ADD_DEPENDENCY
  | MODIFY_LOGIC | UPDATE_TEST | ADD_FUNCTION | REMOVE_FUNCTION | REFACTOR

record CodeChange =
  filePath :: string
  lineNumber :: "int option"
  originalCode :: string
  newCode :: string
  cc_description :: string

record FixSuggestion =
  fixType :: FixType
  description :: string
  files :: "string list"
  codeChanges :: "CodeChange list"
  confidence :: real

record IterationResult =
  success :: bool
  iteration :: int
  changes :: "string list"
  error :: "string option"
  modifiedFiles :: "string list"

subsection \<open>Specialities and the execution context (\<^verbatim>\<open>src/core/specialist_agent.ts\<close>)\<close>

datatype AgentSpecialty =
  GENERAL | DATA_ANALYSIS | ARCHITECTURE | TESTING | PERFORMANCE | SECURITY
  | WEB_DEVELOPMENT | UI_REFACTORING

text \<open>
  The optional fields of the context are options; \<^verbatim>\<open>previousAttempts\<close> and
  \<^verbatim>\<open>metadata\<close> are read by none of the functions modelled here.
\<close>

record AgentExecutionContext =
  request :: string
  codebaseContext :: string
  errorOutput :: "string option"

subsection \<open>Strings\<close>

definition toLowerChar :: "char \<Rightarrow> char" where
  "toLowerChar c =
     (let n = (of_char c :: nat) in if 65 \<le> n \<and> n \<le> 90 then char_of (n + 32) else c)"

definition toLowerCase :: "string \<Rightarrow> string" where
  "toLowerCase s = map toLowerChar s"

fun startsWith :: "string \<Rightarrow> string \<Rightarrow> bool" where
  "startsWith s [] = True"
| "startsWith [] (k # ks) = False"
| "startsWith (c # cs) (k # ks) = (c = k \<and> startsWith cs ks)"

text \<open>\<^verbatim>\<open>s.includes(kw)\<close>: \<open>kw\<close> occurs in \<open>s\<close> as a contiguous substring.\<close>

fun includes_str :: "string \<Rightarrow> string \<Rightarrow> bool" where
  "includes_str [] kw = (kw = [])"
| "includes_str (c # cs) kw = (startsWith (c # cs) kw \<or> includes_str cs kw)"

text \<open>\<^verbatim>\<open>x || ''\<close> on an optional string.\<close>

definition orEmpty :: "string option \<Rightarrow> string" where
  "orEmpty x = (case x of None \<Rightarrow> [] | Some s \<Rightarrow> s)"

subsection \<open>Problem classification (\<^verbatim>\<open>MultiAgentOrchestrator\<close>)\<close>

record ProblemClassification =
  primaryCategory :: ErrorCategory
  secondaryCategories :: "ErrorCategory list"
  suggestedAgents :: "AgentSpecialty list"
  pc_confidence :: real
  pc_description :: string

definition detectPrimaryCategory :: "string \<Rightarrow> string \<Rightarrow> ErrorCategory" where
  "detectPrimaryCategory errOut req =
     (let combined = toLowerCase (errOut @ req) in
      if includes_str combined ''data'' \<or> includes_str combined ''query'' \<or> includes_str combined ''sql''
        then LOGIC
      else if includes_str combined ''test'' \<or> includes_str combined ''expect'' then TEST
      else if includes_str combined ''type'' \<or> includes_str combined ''typescript'' then EC_TYPE
      else if includes_str combined ''syntax'' \<or> includes_str combined ''token'' then SYNTAX
      else if includes_str combined ''import'' \<or> includes_str combined ''module'' then DEPENDENCY
      else if includes_str combined ''build'' \<or> includes_str combined ''compile'' then BUILD
      else if includes_str combined ''lint'' \<or> includes_str combined ''eslint'' then LINT
      else if includes_str combined ''performance'' \<or> includes_str combined ''slow'' then OTHER
      else LOGIC)"

definition detectSecondaryCategories :: "string \<Rightarrow> ErrorCategory list" where
  "detectSecondaryCategories errOut =
     (let lower = toLowerCase errOut in
      (if includes_str lower ''type'' then [EC_TYPE] else [])
      @ (if includes_str lower ''null'' \<or> includes_str lower ''undefined'' then [RUNTIME] else [])
      @ (if includes_str lower ''null'' then [RUNTIME] else []))"

definition webDevKeywords :: "string list" where
  "webDevKeywords =
     [''session'', ''login'', ''auth'', ''cookie'', ''bearer'', ''token'',
      ''nextauth'', ''express'', ''nestjs'', ''fastapi'', ''django'',
      ''middleware'', ''redirect'', ''csrf'', ''cors'', ''credential'',
      ''hydration'', ''useeffect'', ''usestate'', ''context'', ''redux'', ''zustand'']"

definition uiKeywords :: "string list" where
  "uiKeywords =
     [''component'', ''render'', ''blank'', ''display'', ''hook'', ''state'',
      ''react'', ''vue'', ''jsx'', ''tsx'', ''useeffect'', ''usestate'']"

text \<open>
  \<open>specificAgents\<close> is the value of the local \<^verbatim>\<open>suggested\<close> of
  \<^verbatim>\<open>selectSuitableAgents\<close> just before its last \<^verbatim>\<open>if\<close>: the specialities pushed by
  the keyword checks, in the order of the checks.
\<close>

definition specificAgents ::
  "ErrorCategory \<Rightarrow> ErrorCategory list \<Rightarrow> AgentExecutionContext \<Rightarrow> AgentSpecialty list" where
  "specificAgents primary secondary ctx =
     (let req = toLowerCase (request ctx);
          codebase = toLowerCase (codebaseContext ctx);
          hasWebDevKeyword = list_ex (\<lambda>kw. includes_str req kw \<or> includes_str codebase kw) webDevKeywords;
          s1 = (if hasWebDevKeyword then [WEB_DEVELOPMENT] else []);
          hasUIKeyword = list_ex (\<lambda>kw. includes_str req kw \<or> includes_str codebase kw) uiKeywords;
          s2 = (if hasUIKeyword \<and> \<not> List.member s1 WEB_DEVELOPMENT then s1 @ [UI_REFACTORING] else s1);
          s3 = (if includes_str req ''data'' \<or> includes_str req ''query'' \<or> includes_str req ''sql''
                   \<or> includes_str req ''parse'' \<or> includes_str req ''transform'' \<or> includes_str req ''analysis''
                then s2 @ [DATA_ANALYSIS] else s2);
          s4 = (if includes_str req ''test'' \<or> primary = TEST then s3 @ [TESTING] else s3);
          s5 = (if includes_str req ''architecture'' \<or> includes_str req ''structure''
                   \<or> includes_str req ''refactor'' \<or> includes_str req ''design''
                then s4 @ [ARCHITECTURE] else s4);
          s6 = (if includes_str req ''performance'' \<or> includes_str req ''optimize''
                   \<or> includes_str req ''fast'' \<or> includes_str req ''slow''
                then s5 @ [PERFORMANCE] else s5);
          s7 = (if includes_str req ''security'' \<or> includes_str req ''vulnerable'' \<or> includes_str req ''encrypt''
                then s6 @ [SECURITY] else s6)
      in s7)"

definition selectSuitableAgents ::
  "ErrorCategory \<Rightarrow> ErrorCategory list \<Rightarrow> AgentExecutionContext \<Rightarrow> AgentSpecialty list" where
  "selectSuitableAgents primary secondary ctx =
     (let suggested = specificAgents primary secondary ctx
      in if length suggested = 0 then suggested @ [GENERAL] else suggested)"

definition calculateClassificationConfidence :: "string \<Rightarrow> AgentSpecialty list \<Rightarrow> real" where
  "calculateClassificationConfidence errOut agents =
     (let errorLength = real (length errOut);
          c0 = min 0.9 (errorLength / 1000);
          c1 = c0 * (1 - (real (length agents) - 1) * 0.1)
      in max 0.3 (min 0.95 c1))"

text \<open>
  The first factor of the confidence, \<^verbatim>\<open>Math.min(0.9, errorLength / 1000)\<close>, as a
  function of the length of the diagnostic text.
\<close>

definition lengthFactor :: "nat \<Rightarrow> real" where
  "lengthFactor n = min 0.9 (real n / 1000)"

definition categoryName :: "ErrorCategory \<Rightarrow> string" where
  "categoryName c =
     (case c of SYNTAX \<Rightarrow> ''syntax'' | EC_TYPE \<Rightarrow> ''type'' | DEPENDENCY \<Rightarrow> ''dependency''
      | LOGIC \<Rightarrow> ''logic'' | TEST \<Rightarrow> ''test'' | BUILD \<Rightarrow> ''build'' | LINT \<Rightarrow> ''lint''
      | RUNTIME \<Rightarrow> ''runtime'' | OTHER \<Rightarrow> ''other'')"

definition specialtyName :: "AgentSpecialty \<Rightarrow> string" where
  "specialtyName sp =
     (case sp of GENERAL \<Rightarrow> ''general'' | DATA_ANALYSIS \<Rightarrow> ''data_analysis''
      | ARCHITECTURE \<Rightarrow> ''architecture'' | TESTING \<Rightarrow> ''testing''
      | PERFORMANCE \<Rightarrow> ''performance'' | SECURITY \<Rightarrow> ''security''
      | WEB_DEVELOPMENT \<Rightarrow> ''web_development'' | UI_REFACTORING \<Rightarrow> ''ui_refactoring'')"

text \<open>\<^verbatim>\<open>xs.join(', ')\<close>.\<close>

fun joinComma :: "string list \<Rightarrow> string" where
  "joinComma [] = []"
| "joinComma [x] = x"
| "joinComma (x # y # ys) = x @ '', '' @ joinComma (y # ys)"

definition classifyProblem :: "AgentExecutionContext \<Rightarrow> ProblemClassification" where
  "classifyProblem ctx =
     (let errOut = orEmpty (errorOutput ctx);
          req = request ctx;
          primary = detectPrimaryCategory errOut req;
          secondary = detectSecondaryCategories errOut;
          agents = selectSuitableAgents primary secondary ctx;
          conf = calculateClassificationConfidence errOut agents
      in \<lparr> primaryCategory = primary, secondaryCategories = secondary,
           suggestedAgents = agents, pc_confidence = conf,
           pc_description = categoryName primary @ '' issue, likely solvable by ''
             @ joinComma (map specialtyName agents) @ '' agent(s)'' \<rparr>)"

subsection \<open>The specialist base class (\<^verbatim>\<open>SpecialistAgent\<close>)\<close>

record AgentCapability =
  specialty :: AgentSpecialty
  supportedLanguages :: "string list"
  supportedErrorCategories :: "ErrorCategory list"
  cap_confidence :: real
  cap_description :: string
  cap_maxIterations :: int

record AgentExecutionResult =
  ar_success :: bool
  agent :: AgentSpecialty
  iterations :: int
  ar_changes :: "string list"
  ar_modifiedFiles :: "string list"
  recommendations :: "string list"
  ar_error :: "string option"

text \<open>
  An instance of a subclass of \<^verbatim>\<open>SpecialistAgent\<close>: the two protected fields and the
  two abstract methods that \<^verbatim>\<open>execute\<close> calls. The type \<open>'w\<close> is whatever the
  methods of the subclass read and write outside the agent (the files of the project).
  \<^verbatim>\<open>applyFix\<close> may also push onto \<^verbatim>\<open>this.iterationHistory\<close>
  (\<^verbatim>\<open>recordIteration\<close>), so it takes and returns the history; either method may throw.
\<close>

record 'w SpecialistAgent =
  capability :: AgentCapability
  maxIterations :: int
  analyzeContext :: "AgentExecutionContext \<Rightarrow> 'w \<Rightarrow> string + FixSuggestion list"
  applyFix :: "FixSuggestion \<Rightarrow> IterationResult list \<times> 'w
                 \<Rightarrow> (string + bool) \<times> IterationResult list \<times> 'w"

text \<open>
  The constructor: \<^verbatim>\<open>if (maxIterations)\<close> is false for an absent argument and for 0.
\<close>

definition newSpecialistAgent ::
  "AgentCapability \<Rightarrow> int option
     \<Rightarrow> (AgentExecutionContext \<Rightarrow> 'w \<Rightarrow> string + FixSuggestion list)
     \<Rightarrow> (FixSuggestion \<Rightarrow> IterationResult list \<times> 'w \<Rightarrow> (string + bool) \<times> IterationResult list \<times> 'w)
     \<Rightarrow> 'w SpecialistAgent" where
  "newSpecialistAgent cap mi an ap =
     \<lparr> capability = cap,
       maxIterations = (case mi of None \<Rightarrow> cap_maxIterations cap
                        | Some n \<Rightarrow> if n \<noteq> 0 then n else cap_maxIterations cap),
       analyzeContext = an, applyFix = ap \<rparr>"

definition canHandle :: "'w SpecialistAgent \<Rightarrow> ErrorCategory \<Rightarrow> string \<Rightarrow> bool" where
  "canHandle ag cat lang =
     (let supportsCategory = List.member (supportedErrorCategories (capability ag)) cat;
          supportsLanguage = (List.member (supportedLanguages (capability ag)) lang
                              \<or> List.member (supportedLanguages (capability ag)) ''*'')
      in supportsCategory \<and> supportsLanguage)"

text \<open>The score that the comparator of \<^verbatim>\<open>selectBestSuggestion\<close> gives a suggestion.\<close>

definition score :: "FixSuggestion \<Rightarrow> int \<Rightarrow> real" where
  "score s i = confidence s * (1 - (real_of_int i - 1) * 0.1)"

text \<open>
  \<^verbatim>\<open>Array.prototype.sort\<close> sorts in place and is stable; with the comparator
  \<^verbatim>\<open>bScore - aScore\<close> the order is by descending score. The sorted array is returned with
  the selection, since the caller's array is the one that was sorted.
\<close>

definition selectBestSuggestion ::
  "FixSuggestion list \<Rightarrow> int \<Rightarrow> FixSuggestion list \<times> FixSuggestion option" where
  "selectBestSuggestion suggestions i =
     (if length suggestions = 0 then (suggestions, None)
      else let sortedSuggestions = sort_key (\<lambda>s. - score s i) suggestions
           in (sortedSuggestions, case sortedSuggestions of [] \<Rightarrow> None | s # _ \<Rightarrow> Some s))"

definition generateRecommendations ::
  "'w SpecialistAgent \<Rightarrow> bool \<Rightarrow> AgentExecutionContext \<Rightarrow> string list" where
  "generateRecommendations ag succ ctx =
     (if \<not> succ then
        [''Failed to solve with '' @ specialtyName (specialty (capability ag)) @ '' agent'',
         ''Consider routing to different specialist agent'',
         ''Request may require manual intervention'']
      else
        [''Solution applied successfully'',
         ''Review changes before committing'',
         ''Run verification tests to confirm''])"

text \<open>\<^verbatim>\<open>[...new Set(xs)]\<close>: the first occurrence of each element, in order.\<close>

definition uniq :: "'a list \<Rightarrow> 'a list" where
  "uniq xs = rev (remdups (rev xs))"

definition buildResult ::
  "'w SpecialistAgent \<Rightarrow> IterationResult list \<Rightarrow> bool \<Rightarrow> AgentExecutionContext \<Rightarrow> int
     \<Rightarrow> string option \<Rightarrow> AgentExecutionResult" where
  "buildResult ag history succ ctx its err =
     \<lparr> ar_success = succ,
       agent = specialty (capability ag),
       iterations = its,
       ar_changes = concat (map changes history),
       ar_modifiedFiles = uniq (concat (map modifiedFiles history)),
       recommendations = generateRecommendations ag succ ctx,
       ar_error = err \<rparr>"

text \<open>
  How the \<^verbatim>\<open>for\<close> loop of \<^verbatim>\<open>execute\<close> ends: the values of \<^verbatim>\<open>succeeded\<close> and
  \<^verbatim>\<open>iteration\<close>, the message if \<^verbatim>\<open>applyFix\<close> threw, the history and the outside
  world. \<open>lr_trace\<close> is not a variable of the source: it lists, for each run of the loop
  body that reached \<^verbatim>\<open>applyFix\<close>, the iteration number, the suggestion that was selected
  and what \<^verbatim>\<open>applyFix\<close> did with it, so that claims about the iterations can be stated.
\<close>

record 'w LoopResult =
  lr_succeeded :: bool
  lr_iteration :: int
  lr_thrown :: "string option"
  lr_state :: "IterationResult list \<times> 'w"
  lr_trace :: "(int \<times> FixSuggestion \<times> (string + bool)) list"

definition logged ::
  "int \<times> FixSuggestion \<times> (string + bool) \<Rightarrow> 'w LoopResult \<Rightarrow> 'w LoopResult" where
  "logged e r = r\<lparr> lr_trace := e # lr_trace r \<rparr>"

function executeLoop ::
  "'w SpecialistAgent \<Rightarrow> FixSuggestion list \<Rightarrow> int \<Rightarrow> IterationResult list \<times> 'w \<Rightarrow> 'w LoopResult" where
  "executeLoop ag suggestions i st =
     (if i \<le> maxIterations ag then
        (case selectBestSuggestion suggestions i of
           (sortedSuggestions, None) \<Rightarrow>
             \<lparr> lr_succeeded = False, lr_iteration = i, lr_thrown = None, lr_state = st, lr_trace = [] \<rparr>
         | (sortedSuggestions, Some suggestion) \<Rightarrow>
             (case applyFix ag suggestion st of
                (Inl msg, st') \<Rightarrow>
                  \<lparr> lr_succeeded = False, lr_iteration = i, lr_thrown = Some msg, lr_state = st',
                    lr_trace = [(i, suggestion, Inl msg)] \<rparr>
              | (Inr applied, st') \<Rightarrow>
                  if \<not> applied then
                    logged (i, suggestion, Inr applied) (executeLoop ag sortedSuggestions (i + 1) st')
                  else if confidence suggestion > 0.8 then
                    \<lparr> lr_succeeded = True, lr_iteration = i, lr_thrown = None, lr_state = st',
                      lr_trace = [(i, suggestion, Inr applied)] \<rparr>
                  else
                    logged (i, suggestion, Inr applied) (executeLoop ag sortedSuggestions (i + 1) st')))
      else
        \<lparr> lr_succeeded = False, lr_iteration = i, lr_thrown = None, lr_state = st, lr_trace = [] \<rparr>)"
  by pat_completeness auto
termination
  by (relation "measure (\<lambda>(ag, suggestions, i, st). nat (maxIterations ag + 1 - i))") auto

text \<open>
  \<^verbatim>\<open>execute\<close>: the result, with the history and the world as the call leaves them.
  The history is reset first, so the one the agent had before is not an argument.
\<close>

definition execute ::
  "'w SpecialistAgent \<Rightarrow> AgentExecutionContext \<Rightarrow> 'w
     \<Rightarrow> AgentExecutionResult \<times> IterationResult list \<times> 'w" where
  "execute ag ctx w =
     (case analyzeContext ag ctx w of
        Inl msg \<Rightarrow> (buildResult ag [] False ctx 0 (Some msg), [], w)
      | Inr suggestions \<Rightarrow>
          if length suggestions = 0 then (buildResult ag [] False ctx 0 None, [], w)
          else
            let r = executeLoop ag suggestions 1 ([], w) in
            (case lr_thrown r of
               Some msg \<Rightarrow>
                 (buildResult ag (fst (lr_state r)) False ctx (lr_iteration r) (Some msg), lr_state r)
             | None \<Rightarrow>
                 (buildResult ag (fst (lr_state r)) (lr_succeeded r) ctx (lr_iteration r) None,
                  lr_state r)))"

text \<open>The iterations of a call of \<^verbatim>\<open>execute\<close> (empty when the loop is not entered).\<close>

definition executeTrace ::
  "'w SpecialistAgent \<Rightarrow> AgentExecutionContext \<Rightarrow> 'w
     \<Rightarrow> (int \<times> FixSuggestion \<times> (string + bool)) list" where
  "executeTrace ag ctx w =
     (case analyzeContext ag ctx w of
        Inl msg \<Rightarrow> []
      | Inr suggestions \<Rightarrow>
          if length suggestions = 0 then [] else lr_trace (executeLoop ag suggestions 1 ([], w)))"

subsection \<open>The general purpose agent\<close>

definition allErrorCategories :: "ErrorCategory list" where
  "allErrorCategories = [SYNTAX, EC_TYPE, DEPENDENCY, LOGIC, TEST, BUILD, LINT, RUNTIME, OTHER]"

definition GeneralSpecialistAgent :: "'w SpecialistAgent" where
  "GeneralSpecialistAgent =
     newSpecialistAgent
       \<lparr> specialty = GENERAL, supportedLanguages = [''*''],
         supportedErrorCategories = allErrorCategories,
         cap_confidence = 0.5,
         cap_description = ''General purpose agent for various problem types'',
         cap_maxIterations = 5 \<rparr>
       None
       (\<lambda>ctx w. Inr [])
       (\<lambda>fix st. (Inr False, st))"

subsection \<open>The web development agent (\<^verbatim>\<open>WebDevelopmentSpecialistAgent\<close>)\<close>










record Check =
  valid :: bool
  issue :: string
  affectedFiles :: "string list"










subsection \<open>The orchestrator's \<^verbatim>\<open>execute\<close> (\<^verbatim>\<open>MultiAgentOrchestrator\<close>)\<close>

record MultiAgentResult =
  succeeded :: bool
  primaryAgent :: AgentSpecialty
  agentsUsed :: "AgentSpecialty list"
  totalIterations :: int
  m_changes :: "string list"
  m_modifiedFiles :: "string list"
  executionPath :: "string list"
  problemClassification :: ProblemClassification

text \<open>
  What the orchestrator sees of a registered agent is its \<^verbatim>\<open>execute\<close> method, called
  inside a \<^verbatim>\<open>try\<close>: it returns a result or throws. The map \<^verbatim>\<open>this.agents\<close> is a
  partial function from specialities to such methods; \<^verbatim>\<open>registerAgent\<close> updates it.
\<close>

type_synonym 'w AgentRunner =
  "AgentExecutionContext \<Rightarrow> 'w \<Rightarrow> (string + AgentExecutionResult) \<times> 'w"

text \<open>An agent that inherits \<^verbatim>\<open>execute\<close> from the base class.\<close>

definition runnerOf :: "'w SpecialistAgent \<Rightarrow> 'w AgentRunner" where
  "runnerOf ag ctx w = (case execute ag ctx w of (r, history, w') \<Rightarrow> (Inr r, w'))"

definition registerAgent ::
  "(AgentSpecialty \<Rightarrow> 'w AgentRunner option) \<Rightarrow> 'w AgentRunner \<Rightarrow> AgentSpecialty
     \<Rightarrow> (AgentSpecialty \<Rightarrow> 'w AgentRunner option)" where
  "registerAgent agents ex sp = agents(sp \<mapsto> ex)"

text \<open>
  The local variables of the \<^verbatim>\<open>for\<close> loop over \<^verbatim>\<open>classification.suggestedAgents\<close>.
  \<open>os_attempts\<close> is not a variable of the source: it lists the calls of
  \<^verbatim>\<open>agent.execute\<close> that the loop made, each with what the call gave.
\<close>

record 'w OrchState =
  os_result :: "AgentExecutionResult option"
  os_agentsUsed :: "AgentSpecialty list"
  os_totalIterations :: int
  os_executionPath :: "string list"
  os_world :: 'w
  os_attempts :: "(AgentSpecialty \<times> (string + AgentExecutionResult)) list"

fun runAgents ::
  "(AgentSpecialty \<Rightarrow> 'w AgentRunner option) \<Rightarrow> AgentExecutionContext \<Rightarrow> AgentSpecialty list
     \<Rightarrow> 'w OrchState \<Rightarrow> 'w OrchState" where
  "runAgents agents ctx [] st = st"
| "runAgents agents ctx (sp # rest) st =
     (case agents sp of
        None \<Rightarrow> runAgents agents ctx rest st
      | Some ex \<Rightarrow>
          (let st1 = st\<lparr> os_executionPath := os_executionPath st @ [specialtyName sp @ ''(start)''] \<rparr>
           in case ex ctx (os_world st1) of
                (Inl msg, w') \<Rightarrow>
                  runAgents agents ctx rest
                    (st1\<lparr> os_executionPath := os_executionPath st1 @ [specialtyName sp @ ''(error)''],
                          os_world := w',
                          os_attempts := os_attempts st1 @ [(sp, Inl msg)] \<rparr>)
              | (Inr r, w') \<Rightarrow>
                  (let st2 = st1\<lparr> os_result := Some r,
                                   os_agentsUsed := os_agentsUsed st1 @ [sp],
                                   os_totalIterations := os_totalIterations st1 + iterations r,
                                   os_executionPath := os_executionPath st1 @ [specialtyName sp @ ''(end)''],
                                   os_world := w',
                                   os_attempts := os_attempts st1 @ [(sp, Inr r)] \<rparr>
                   in if ar_success r then st2 else runAgents agents ctx rest st2)))"

definition orchInit :: "'w \<Rightarrow> 'w OrchState" where
  "orchInit w =
     \<lparr> os_result = None, os_agentsUsed = [], os_totalIterations = 0, os_executionPath = [],
       os_world = w, os_attempts = [] \<rparr>"

definition orchestratorRun ::
  "(AgentSpecialty \<Rightarrow> 'w AgentRunner option) \<Rightarrow> AgentExecutionContext \<Rightarrow> 'w \<Rightarrow> 'w OrchState" where
  "orchestratorRun agents ctx w =
     runAgents agents ctx (suggestedAgents (classifyProblem ctx)) (orchInit w)"

definition orchestratorExecute ::
  "(AgentSpecialty \<Rightarrow> 'w AgentRunner option) \<Rightarrow> AgentExecutionContext \<Rightarrow> 'w
     \<Rightarrow> MultiAgentResult \<times> 'w" where
  "orchestratorExecute agents ctx w =
     (let classification = classifyProblem ctx;
          st = runAgents agents ctx (suggestedAgents classification) (orchInit w)
      in (\<lparr> succeeded = (case os_result st of None \<Rightarrow> False | Some r \<Rightarrow> ar_success r),
            primaryAgent = (case os_agentsUsed st of [] \<Rightarrow> GENERAL | sp # _ \<Rightarrow> sp),
            agentsUsed = os_agentsUsed st,
            totalIterations = os_totalIterations st,
            m_changes = (case os_result st of None \<Rightarrow> [] | Some r \<Rightarrow> ar_changes r),
            m_modifiedFiles = (case os_result st of None \<Rightarrow> [] | Some r \<Rightarrow> ar_modifiedFiles r),
            executionPath = os_executionPath st,
            problemClassification = classification \<rparr>,
          os_world st))"

text \<open>
  Two readings of the list of attempts: whether a call returned a result that reports
  success, and the results of the calls that returned (a call that threw gives none).
\<close>

definition attemptSucceeded :: "AgentSpecialty \<times> (string + AgentExecutionResult) \<Rightarrow> bool" where
  "attemptSucceeded a = (case snd a of Inl msg \<Rightarrow> False | Inr r \<Rightarrow> ar_success r)"

fun returnedResults ::
  "(AgentSpecialty \<times> (string + AgentExecutionResult)) list
     \<Rightarrow> (AgentSpecialty \<times> AgentExecutionResult) list" where
  "returnedResults [] = []"
| "returnedResults ((sp, Inl msg) # rest) = returnedResults rest"
| "returnedResults ((sp, Inr r) # rest) = (sp, r) # returnedResults rest"

text \<open>The result of the last call that returned, if any call did.\<close>

definition lastReturned ::
  "(AgentSpecialty \<times> (string + AgentExecutionResult)) list \<Rightarrow> AgentExecutionResult option" where
  "lastReturned attempts =
     (case returnedResults attempts of [] \<Rightarrow> None
      | _ # _ \<Rightarrow> Some (snd (last (returnedResults attempts))))"

definition reportsSuccess :: "AgentExecutionResult option \<Rightarrow> bool" where
  "reportsSuccess res = (case res of None \<Rightarrow> False | Some r \<Rightarrow> ar_success r)"

subsection \<open>The execution memory (\<^verbatim>\<open>EnhancedIterationEngine\<close>)\<close>

datatype SolutionResult = Success | Failure | Partial

record AttemptedSolution =
  agentSpecialty :: string
  approach :: string
  as_result :: SolutionResult
  as_iteration :: int
  errorMessage :: "string option"

record AppliedChange =
  ac_filePath :: string
  changeDescription :: string
  ac_timestamp :: int

record ExecutionMemory =
  executionId :: string
  originalRequest :: string
  attemptedSolutions :: "AttemptedSolution list"
  appliedChanges :: "AppliedChange list"
  em_succeeded :: bool
  em_totalIterations :: int
  timestamp :: int

text \<open>
  \<^verbatim>\<open>Map<string, ExecutionMemory>\<close>: the entries in insertion order. \<^verbatim>\<open>set\<close> on a key
  that is present replaces the value where it stands, on a new key it appends; the keys of
  a map are distinct.
\<close>

type_synonym MemoryMap = "(string \<times> ExecutionMemory) list"

fun mapSet :: "string \<Rightarrow> ExecutionMemory \<Rightarrow> MemoryMap \<Rightarrow> MemoryMap" where
  "mapSet k v [] = [(k, v)]"
| "mapSet k v (p # ps) = (if fst p = k then (k, v) # ps else p # mapSet k v ps)"

definition mapGet :: "MemoryMap \<Rightarrow> string \<Rightarrow> ExecutionMemory option" where
  "mapGet m k = map_of m k"

definition mapValues :: "MemoryMap \<Rightarrow> ExecutionMemory list" where
  "mapValues m = map snd m"

definition mapSize :: "MemoryMap \<Rightarrow> nat" where
  "mapSize m = length m"

text \<open>\<open>now\<close> is the value of \<^verbatim>\<open>Date.now()\<close> at the call.\<close>

definition createExecutionMemory :: "MemoryMap \<Rightarrow> string \<Rightarrow> string \<Rightarrow> int \<Rightarrow> MemoryMap" where
  "createExecutionMemory m requestId req now =
     mapSet requestId
       \<lparr> executionId = requestId, originalRequest = req, attemptedSolutions = [],
         appliedChanges = [], em_succeeded = False, em_totalIterations = 0, timestamp = now \<rparr> m"

definition recordAttempt ::
  "MemoryMap \<Rightarrow> string \<Rightarrow> string \<Rightarrow> string \<Rightarrow> SolutionResult \<Rightarrow> int \<Rightarrow> string option \<Rightarrow> MemoryMap" where
  "recordAttempt m execId spec appr res it err =
     (case mapGet m execId of
        None \<Rightarrow> m
      | Some memory \<Rightarrow>
          mapSet execId
            (memory\<lparr> attemptedSolutions := attemptedSolutions memory @
               [\<lparr> agentSpecialty = spec, approach = appr, as_result = res, as_iteration = it,
                  errorMessage = err \<rparr>] \<rparr>) m)"


definition isSpace :: "char \<Rightarrow> bool" where
  "isSpace c = (c = CHR '' '' \<or> c = CHR 0x09 \<or> c = CHR 0x0A \<or> c = CHR 0x0B
                \<or> c = CHR 0x0C \<or> c = CHR 0x0D)"

text \<open>
  \<^verbatim>\<open>text.split(/\s+/)\<close>: the pieces between the maximal runs of white space; a string
  that starts or ends with white space gives an empty first or last piece, and the empty
  string gives one empty piece. \<open>rest\<close> starts with a white space character, so the run
  to skip is that character and the white space after it.
\<close>

function splitSpaces :: "string \<Rightarrow> string list" where
  "splitSpaces s =
     (let piece = takeWhile (\<lambda>c. \<not> isSpace c) s;
          rest = dropWhile (\<lambda>c. \<not> isSpace c) s
      in if rest = [] then [piece] else piece # splitSpaces (dropWhile isSpace (tl rest)))"
  by pat_completeness auto
termination
proof (relation "measure length")
  show "wf (measure length)" by simp
next
  fix s :: string and piece rest
  assume r: "rest = dropWhile (\<lambda>c. \<not> isSpace c) s" and ne: "rest \<noteq> []"
  have "length (dropWhile isSpace (tl rest)) \<le> length (tl rest)"
    by (rule length_dropWhile_le)
  also have "\<dots> < length rest" using ne by (cases rest) simp_all
  also have "\<dots> \<le> length s" unfolding r by (rule length_dropWhile_le)
  finally show "(dropWhile isSpace (tl rest), s) \<in> measure length" by simp
qed

definition tokenize :: "string \<Rightarrow> string list" where
  "tokenize str = filter (\<lambda>token. length token > 2) (splitSpaces (toLowerCase str))"

text \<open>
  \<^verbatim>\<open>new Set(tokens)\<close> is \<open>uniq tokens\<close>; \<^verbatim>\<open>set2.has(token)\<close> is membership.
\<close>

definition calculateSimilarity :: "string list \<Rightarrow> string list \<Rightarrow> real" where
  "calculateSimilarity tokens1 tokens2 =
     (let set1 = uniq tokens1;
          set2 = uniq tokens2;
          intersection = length (filter (\<lambda>token. List.member set2 token) set1);
          union = int (length set1) + int (length set2) - int intersection
      in if union > 0 then real intersection / real_of_int union else 0)"

text \<open>
  The optional \<^verbatim>\<open>agentSpecialty\<close> is an option; \<^verbatim>\<open>!agentSpecialty\<close> holds for an absent
  argument and for the empty string.
\<close>

definition getSimilarSuccesses :: "MemoryMap \<Rightarrow> string \<Rightarrow> string option \<Rightarrow> ExecutionMemory list" where
  "getSimilarSuccesses m currentRequest spec =
     (let currentTokens = tokenize currentRequest;
          results = filter (\<lambda>memory.
             em_succeeded memory
             \<and> calculateSimilarity currentTokens (tokenize (originalRequest memory)) > 0.5
             \<and> (spec = None \<or> spec = Some []
                 \<or> list_ex (\<lambda>s. Some (agentSpecialty s) = spec) (attemptedSolutions memory)))
            (mapValues m)
      in sort_key (\<lambda>memory. - em_totalIterations memory) results)"

definition suggestNextApproach ::
  "MemoryMap \<Rightarrow> string \<Rightarrow> string list \<Rightarrow> string list \<Rightarrow> string option" where
  "suggestNextApproach m execId failedApproaches agentSpecialties =
     (case mapGet m execId of
        None \<Rightarrow> None
      | Some memory \<Rightarrow>
          (let successes = getSimilarSuccesses m (originalRequest memory) None;
               found = filter (\<lambda>solution.
                          as_result solution = Success
                          \<and> \<not> List.member failedApproaches (approach solution)
                          \<and> List.member agentSpecialties (agentSpecialty solution))
                        (concat (map attemptedSolutions successes))
           in case found of [] \<Rightarrow> None | solution # _ \<Rightarrow> Some (approach solution)))"

text \<open>
  \<^verbatim>\<open>pruneMemory(keepCount)\<close>; the count is a natural number. The entries are sorted by
  descending time stamp (a stable sort), the first \<open>keepCount\<close> are kept and set again in
  an empty map.
\<close>

definition pruneMemory :: "MemoryMap \<Rightarrow> nat \<Rightarrow> MemoryMap" where
  "pruneMemory m keepCount =
     (if mapSize m \<le> keepCount then m
      else let entries = sort_key (\<lambda>e. - timestamp (snd e)) m;
               entriesToKeep = take keepCount entries
           in foldl (\<lambda>acc e. mapSet (fst e) (snd e) acc) [] entriesToKeep)"

text \<open>The entries that a call of \<^verbatim>\<open>pruneMemory\<close> removes.\<close>

definition evicted :: "MemoryMap \<Rightarrow> nat \<Rightarrow> MemoryMap" where
  "evicted m keepCount = filter (\<lambda>e. \<not> List.member (pruneMemory m keepCount) e) m"

subsection \<open>The verification manager (\<^verbatim>\<open>VerificationManager\<close>)\<close>

record VerificationScript =
  path :: string
  code :: string
  exitCode :: "int option"
  vs_output :: "string option"
  vs_errorOutput :: "string option"

text \<open>
  The error that \<^verbatim>\<open>child_process.execSync\<close> throws when the process exits with a
  non-zero code, is killed at the timeout or cannot be started: the fields that the
  \<^verbatim>\<open>catch\<close> block reads. \<open>status\<close> is \<^verbatim>\<open>null\<close> (here \<open>None\<close>) when the process
  was killed, as it is at a timeout. A call of \<^verbatim>\<open>execSync\<close> gives \<open>Inr\<close> of the captured
  standard output, or \<open>Inl\<close> of such an error.
\<close>

record ExecError =
  status :: "int option"
  stdout :: "string option"
  stderr :: "string option"
  message :: "string option"

text \<open>\<^verbatim>\<open>a || b\<close> on optional strings: \<open>a\<close> unless it is absent or empty.\<close>

definition orElse :: "string option \<Rightarrow> string option \<Rightarrow> string option" where
  "orElse a b = (case a of None \<Rightarrow> b | Some s \<Rightarrow> if s = [] then b else Some s)"

definition executeVerificationScript ::
  "VerificationScript \<Rightarrow> ExecError + string \<Rightarrow> VerificationScript" where
  "executeVerificationScript script outcome =
     (case outcome of
        Inr out \<Rightarrow> script\<lparr> exitCode := Some 0, vs_output := Some out, vs_errorOutput := Some [] \<rparr>
      | Inl err \<Rightarrow>
          script\<lparr> exitCode := Some (case status err of None \<Rightarrow> 1
                                       | Some n \<Rightarrow> if n = 0 then 1 else n),
                  vs_output := Some (orEmpty (orElse (stdout err) (Some []))),
                  vs_errorOutput :=
                    Some (orEmpty (orElse (orElse (stderr err) (message err)) (Some []))) \<rparr>)"

definition isVerificationPassed :: "VerificationScript \<Rightarrow> bool" where
  "isVerificationPassed script = (exitCode script = Some 0)"

definition extractErrorInfo :: "VerificationScript \<Rightarrow> string" where
  "extractErrorInfo script =
     (if isVerificationPassed script then []
      else orEmpty (orElse (orElse (vs_errorOutput script) (vs_output script)) (Some ''Unknown error'')))"

subsection \<open>The iteration engine (\<^verbatim>\<open>IterationEngine\<close>)\<close>

text \<open>
  What the protocol calls outside itself. \<open>createVerificationScript\<close> writes the script
  file and may throw; \<open>execSync\<close> runs it; \<open>generateFixSuggestions\<close> is the engine's
  analysis of the error text by regular expressions, a function of the error text and the
  code base; \<open>engineApplyFix\<close> is the engine's \<^verbatim>\<open>applyFix\<close>, which edits files inside a
  \<^verbatim>\<open>try\<close> and returns \<^verbatim>\<open>false\<close> when an edit throws; \<open>cleanupVerificationScript\<close>
  deletes the file. \<open>'w\<close> is the file system and whatever else these calls depend on.
  The protocol is modelled for every such environment, so what is proved of it holds for
  the calls of the source.
\<close>

record 'w Environment =
  createVerificationScript :: "string \<Rightarrow> string \<Rightarrow> 'w \<Rightarrow> (string + VerificationScript) \<times> 'w"
  execSync :: "VerificationScript \<Rightarrow> 'w \<Rightarrow> (ExecError + string) \<times> 'w"
  generateFixSuggestions :: "string \<Rightarrow> string \<Rightarrow> FixSuggestion list"
  engineApplyFix :: "FixSuggestion \<Rightarrow> 'w \<Rightarrow> bool \<times> 'w"
  cleanupVerificationScript :: "VerificationScript \<Rightarrow> 'w \<Rightarrow> 'w"

text \<open>
  \<^verbatim>\<open>suggestions.reduce((best, current) => current.confidence > best.confidence ? current : best)\<close>
  on a list that is not empty.
\<close>

definition bestOf :: "FixSuggestion \<Rightarrow> FixSuggestion list \<Rightarrow> FixSuggestion" where
  "bestOf first others =
     foldl (\<lambda>best current. if confidence current > confidence best then current else best)
       first others"

definition executeIteration ::
  "'w Environment \<Rightarrow> string \<Rightarrow> string \<Rightarrow> int \<Rightarrow> 'w \<Rightarrow> IterationResult \<times> 'w" where
  "executeIteration env errOut codebase it w =
     (case generateFixSuggestions env errOut codebase of
        [] \<Rightarrow>
          (\<lparr> success = False, iteration = it, changes = [],
             error = Some ''No fix suggestions generated'', modifiedFiles = [] \<rparr>, w)
      | first # others \<Rightarrow>
          (let bestSuggestion = bestOf first others in
           case engineApplyFix env bestSuggestion w of
             (ok, w') \<Rightarrow>
               (\<lparr> success = ok, iteration = it, changes = [description bestSuggestion],
                  error = (if ok then None else Some ''Failed to apply fix''),
                  modifiedFiles = files bestSuggestion \<rparr>, w')))"

subsection \<open>The protocol (\<^verbatim>\<open>RaphLoopProtocol\<close>)\<close>

record RaphLoopConfig =
  cfg_maxIterations :: int
  verificationTimeout :: int
  cleanupOnCompletion :: bool
  triggerCommands :: "string list"
  workingDirectory :: string

datatype ProtocolPhase = PROBE | LOOP | COMPLETION

record ProtocolState =
  phase :: ProtocolPhase
  currentIteration :: int
  verificationScript :: "VerificationScript option"
  iterationHistory :: "IterationResult list"
  completed :: bool
  ps_succeeded :: bool
  elapsedTime :: int
  failureError :: "string option"

record RequestContext =
  rc_request :: string
  triggerCommand :: string
  codebase :: string

definition initializeState :: ProtocolState where
  "initializeState =
     \<lparr> phase = PROBE, currentIteration = 0, verificationScript = None, iterationHistory = [],
       completed = False, ps_succeeded = False, elapsedTime = 0, failureError = None \<rparr>"

text \<open>
  A phase returns \<open>None\<close>, or \<open>Some\<close> of the message of the error it threw, with the
  state and the world as it leaves them.
\<close>

definition executeProbePhase ::
  "'w Environment \<Rightarrow> RequestContext \<Rightarrow> ProtocolState \<Rightarrow> 'w \<Rightarrow> string option \<times> ProtocolState \<times> 'w" where
  "executeProbePhase env ctx st w =
     (let st1 = st\<lparr> phase := PROBE \<rparr> in
      case createVerificationScript env (rc_request ctx) (codebase ctx) w of
        (Inl msg, w') \<Rightarrow> (Some msg, st1, w')
      | (Inr script, w') \<Rightarrow> (None, st1\<lparr> verificationScript := Some script \<rparr>, w'))"

text \<open>
  The \<^verbatim>\<open>while\<close> loop of \<^verbatim>\<open>executeLoopPhase\<close>. It gives \<open>Inr\<close> of the value of
  \<^verbatim>\<open>verificationPassed\<close> when the loop is left, or \<open>Inl\<close> of a message when the state
  has no script (\<^verbatim>\<open>this.state.verificationScript!\<close> is then \<^verbatim>\<open>undefined\<close> and writing
  its \<^verbatim>\<open>exitCode\<close> throws). \<^verbatim>\<open>executeVerificationScript\<close> writes into the script object
  that the state holds, so the state's script is the executed one.
\<close>

function loopIterations ::
  "RaphLoopConfig \<Rightarrow> 'w Environment \<Rightarrow> RequestContext \<Rightarrow> ProtocolState \<Rightarrow> 'w
     \<Rightarrow> (string + bool) \<times> ProtocolState \<times> 'w" where
  "loopIterations cfg env ctx st w =
     (if currentIteration st < cfg_maxIterations cfg then
        (let st1 = st\<lparr> currentIteration := currentIteration st + 1 \<rparr> in
         case verificationScript st1 of
           None \<Rightarrow> (Inl ''Cannot set properties of undefined'', st1, w)
         | Some script \<Rightarrow>
             (case execSync env script w of
                (outcome, w1) \<Rightarrow>
                  (let executedScript = executeVerificationScript script outcome;
                       st2 = st1\<lparr> verificationScript := Some executedScript \<rparr>
                   in if isVerificationPassed executedScript then (Inr True, st2, w1)
                      else if currentIteration st2 \<ge> cfg_maxIterations cfg then (Inr False, st2, w1)
                      else
                        (case executeIteration env (extractErrorInfo executedScript) (codebase ctx)
                                (currentIteration st2) w1 of
                           (iterationResult, w2) \<Rightarrow>
                             (let st3 = st2\<lparr> iterationHistory :=
                                              iterationHistory st2 @ [iterationResult] \<rparr>
                              in if \<not> success iterationResult then (Inr False, st3, w2)
                                 else loopIterations cfg env ctx st3 w2)))))
      else (Inr False, st, w))"
  by pat_completeness auto
termination
  by (relation "measure (\<lambda>(cfg, env, ctx, st, w). nat (cfg_maxIterations cfg - currentIteration st))")
    auto

definition executeLoopPhase ::
  "RaphLoopConfig \<Rightarrow> 'w Environment \<Rightarrow> RequestContext \<Rightarrow> ProtocolState \<Rightarrow> 'w
     \<Rightarrow> string option \<times> ProtocolState \<times> 'w" where
  "executeLoopPhase cfg env ctx st w =
     (case loopIterations cfg env ctx (st\<lparr> phase := LOOP \<rparr>) w of
        (Inl msg, st', w') \<Rightarrow> (Some msg, st', w')
      | (Inr verificationPassed, st', w') \<Rightarrow> (None, st'\<lparr> ps_succeeded := verificationPassed \<rparr>, w'))"

definition executeCompletionPhase ::
  "RaphLoopConfig \<Rightarrow> 'w Environment \<Rightarrow> ProtocolState \<Rightarrow> 'w \<Rightarrow> ProtocolState \<times> 'w" where
  "executeCompletionPhase cfg env st w =
     (let st1 = st\<lparr> phase := COMPLETION, completed := True \<rparr> in
      case verificationScript st1 of
        Some script \<Rightarrow>
          if cleanupOnCompletion cfg then (st1, cleanupVerificationScript env script w) else (st1, w)
      | None \<Rightarrow> (st1, w))"

text \<open>
  \<^verbatim>\<open>RaphLoopProtocol.execute\<close> on a fresh protocol object; \<open>elapsed\<close> is
  \<^verbatim>\<open>Date.now() - this.startTime\<close> at the end.
\<close>

definition failed :: "string \<Rightarrow> ProtocolState \<Rightarrow> ProtocolState" where
  "failed msg st = st\<lparr> completed := True, ps_succeeded := False, failureError := Some msg \<rparr>"

definition protocolExecute ::
  "RaphLoopConfig \<Rightarrow> 'w Environment \<Rightarrow> RequestContext \<Rightarrow> int \<Rightarrow> 'w \<Rightarrow> ProtocolState \<times> 'w" where
  "protocolExecute cfg env ctx elapsed w =
     (case executeProbePhase env ctx initializeState w of
        (Some msg, st1, w1) \<Rightarrow> ((failed msg st1)\<lparr> elapsedTime := elapsed \<rparr>, w1)
      | (None, st1, w1) \<Rightarrow>
          (case executeLoopPhase cfg env ctx st1 w1 of
             (Some msg, st2, w2) \<Rightarrow> ((failed msg st2)\<lparr> elapsedTime := elapsed \<rparr>, w2)
           | (None, st2, w2) \<Rightarrow>
               (case executeCompletionPhase cfg env st2 w2 of
                  (st3, w3) \<Rightarrow> (st3\<lparr> elapsedTime := elapsed \<rparr>, w3))))"

text \<open>
  What the loop does to the counter and the history between a state \<open>st\<close> and the state
  \<open>st'\<close> in which it ends when no run of the script passes: the records \<open>new\<close> that it
  appends are results of \<open>executeIteration\<close>, numbered from the counter on, and either
  the counter reaches the budget with one record less than iterations, all successful, or it
  stops below the budget at the first record that is not successful.
\<close>

definition exhausts ::
  "RaphLoopConfig \<Rightarrow> 'w Environment \<Rightarrow> RequestContext \<Rightarrow> ProtocolState \<Rightarrow> ProtocolState \<Rightarrow> bool" where
  "exhausts cfg env ctx st st' \<longleftrightarrow>
     (if currentIteration st < cfg_maxIterations cfg then
        currentIteration st < currentIteration st'
        \<and> currentIteration st' \<le> cfg_maxIterations cfg
        \<and> (\<exists>new. iterationHistory st' = iterationHistory st @ new
              \<and> map iteration new = [currentIteration st + 1 .. currentIteration st + int (length new)]
              \<and> list_all (\<lambda>r. \<exists>e i w0. r = fst (executeIteration env e (codebase ctx) i w0)) new
              \<and> ((currentIteration st' = cfg_maxIterations cfg
                    \<and> int (length new) = cfg_maxIterations cfg - 1 - currentIteration st
                    \<and> list_all success new)
                  \<or> (currentIteration st' < cfg_maxIterations cfg
                      \<and> int (length new) = currentIteration st' - currentIteration st
                      \<and> new \<noteq> [] \<and> \<not> success (last new) \<and> list_all success (butlast new))))
      else st' = st)"

subsection \<open>Example inputs\<close>

text \<open>A request and a code base in which none of the keywords of the classifier occurs.\<close>

definition plainContext :: AgentExecutionContext where
  "plainContext =
     \<lparr> request = ''Fix the Bug'', codebaseContext = ''src/index.js'', errorOutput = None \<rparr>"


definition lowSuggestion :: FixSuggestion where
  "lowSuggestion =
     \<lparr> fixType = MODIFY_LOGIC, description = ''rewrite the parser'', files = [''parser.ts''],
       codeChanges = [], confidence = 0.5 \<rparr>"

definition highSuggestion :: FixSuggestion where
  "highSuggestion =
     \<lparr> fixType = UPDATE_TEST, description = ''update the test'', files = [''parser.test.ts''],
       codeChanges = [], confidence = 0.7 \<rparr>"

text \<open>
  An \<^verbatim>\<open>applyFix\<close> that applies every fix and records it in the history, as the one of
  \<^verbatim>\<open>DataAnalysisSpecialistAgent\<close> does when no file operation throws.
\<close>

definition recordingApplyFix ::
  "FixSuggestion \<Rightarrow> IterationResult list \<times> 'w \<Rightarrow> (string + bool) \<times> IterationResult list \<times> 'w" where
  "recordingApplyFix fix st =
     (Inr True,
      fst st @ [\<lparr> success = True, iteration = int (length (fst st)) + 1,
                  changes = [description fix], error = None, modifiedFiles = files fix \<rparr>],
      snd st)"

definition exampleCapability :: "AgentSpecialty \<Rightarrow> AgentCapability" where
  "exampleCapability sp =
     \<lparr> specialty = sp, supportedLanguages = [''*''], supportedErrorCategories = [LOGIC, TEST],
       cap_confidence = 0.7, cap_description = ''example agent'', cap_maxIterations = 8 \<rparr>"

text \<open>An agent with a budget of two iterations and the two suggestions above.\<close>

definition twoSuggestionAgent :: "unit SpecialistAgent" where
  "twoSuggestionAgent =
     newSpecialistAgent (exampleCapability TESTING) (Some 2)
       (\<lambda>ctx w. Inr [lowSuggestion, highSuggestion]) recordingApplyFix"

text \<open>An agent with a budget of one iteration and one suggestion.\<close>

definition oneSuggestionAgent :: "unit SpecialistAgent" where
  "oneSuggestionAgent =
     newSpecialistAgent (exampleCapability DATA_ANALYSIS) (Some 1)
       (\<lambda>ctx w. Inr [lowSuggestion]) recordingApplyFix"

definition parseTestContext :: AgentExecutionContext where
  "parseTestContext =
     \<lparr> request = ''parse the rows, refactor and fix the test'', codebaseContext = ''src/rows.ts'',
       errorOutput = Some ''AssertionError'' \<rparr>"

text \<open>
  The request above suggests the data analysis, the testing and the architecture agent, in
  this order; the map below registers the first two only.
\<close>

definition exampleAgents :: "AgentSpecialty \<Rightarrow> unit AgentRunner option" where
  "exampleAgents =
     registerAgent (registerAgent (\<lambda>sp. None) (runnerOf oneSuggestionAgent) DATA_ANALYSIS)
       (runnerOf twoSuggestionAgent) TESTING"





definition threeRuns :: MemoryMap where
  "threeRuns =
     createExecutionMemory
       (createExecutionMemory (createExecutionMemory [] ''a'' ''first request'' 30)
          ''b'' ''second request'' 10)
       ''c'' ''third request'' 20"

text \<open>
  A script, the error of a run that exits with code 1 and writes to the standard error, and
  the error of a run that is killed at the timeout before it has written anything.
\<close>

definition sampleScript :: VerificationScript where
  "sampleScript =
     \<lparr> path = ''verify_iteration_1.js'', code = ''process.exit(1)'', exitCode = None,
       vs_output = None, vs_errorOutput = None \<rparr>"

definition exitOneError :: ExecError where
  "exitOneError =
     \<lparr> status = Some 1, stdout = Some ''Running tests...'', stderr = Some ''Tests failed'',
       message = Some ''Command failed: node verify_iteration_1.js'' \<rparr>"

definition timeoutError :: ExecError where
  "timeoutError =
     \<lparr> status = None, stdout = Some [], stderr = Some [],
       message = Some ''spawnSync /bin/sh ETIMEDOUT'' \<rparr>"

text \<open>
  The default configuration of \<^verbatim>\<open>executeRaphLoop\<close>, and two environments in which every
  run of the script exits with code 1: in the first the engine always has a suggestion and
  applies it, in the second it never has one.
\<close>

definition defaultConfig :: RaphLoopConfig where
  "defaultConfig =
     \<lparr> cfg_maxIterations = 5, verificationTimeout = 30000, cleanupOnCompletion = True,
       triggerCommands = [''/raph'', ''/raph-loop''], workingDirectory = ''.'' \<rparr>"

definition failingRequest :: RequestContext where
  "failingRequest =
     \<lparr> rc_request = ''fix the failing unit tests'', triggerCommand = ''/raph'',
       codebase = ''package.json'' \<rparr>"

definition alwaysFailingEnv :: "unit Environment" where
  "alwaysFailingEnv =
     \<lparr> createVerificationScript = (\<lambda>req cb w. (Inr sampleScript, w)),
       execSync = (\<lambda>script w. (Inl exitOneError, w)),
       generateFixSuggestions = (\<lambda>errOut cb. [lowSuggestion, highSuggestion]),
       engineApplyFix = (\<lambda>fix w. (True, w)),
       cleanupVerificationScript = (\<lambda>script w. w) \<rparr>"

definition noSuggestionEnv :: "unit Environment" where
  "noSuggestionEnv = alwaysFailingEnv\<lparr> generateFixSuggestions := (\<lambda>errOut cb. []) \<rparr>"

declare executeLoop.simps [simp del]
declare loopIterations.simps [simp del]
declare splitSpaces.simps [simp del]

section \<open>Properties\<close>

subsection \<open>Classification\<close>

lemma lengthFactor_mono: "m \<le> n \<Longrightarrow> lengthFactor m \<le> lengthFactor n"
  unfolding lengthFactor_def by (intro min.mono order_refl divide_right_mono) simp_all

lemma lengthFactor_nonneg: "0 \<le> lengthFactor n"
  unfolding lengthFactor_def by simp

lemma confidence_clamp:
  "calculateClassificationConfidence e a =
     max 0.3 (min 0.95 (lengthFactor (length e) * (1 - 0.1 * (real (length a) - 1))))"
  by (simp add: calculateClassificationConfidence_def lengthFactor_def Let_def mult.commute)

lemma confidence_bounds:
  "0.3 \<le> calculateClassificationConfidence e a \<and> calculateClassificationConfidence e a \<le> 0.95"
  by (simp add: calculateClassificationConfidence_def Let_def)

lemma confidence_mono:
  assumes "length e1 \<le> length e2"
  shows "calculateClassificationConfidence e1 a \<le> calculateClassificationConfidence e2 a"
proof -
  define k where "k = 1 - 0.1 * (real (length a) - 1)"
  have eq: "calculateClassificationConfidence e a = max 0.3 (min 0.95 (lengthFactor (length e) * k))"
    for e :: string
    unfolding k_def by (rule confidence_clamp)
  show ?thesis
  proof (cases "0 \<le> k")
    case True
    have "lengthFactor (length e1) * k \<le> lengthFactor (length e2) * k"
      using lengthFactor_mono [OF assms] True by (rule mult_right_mono)
    then show ?thesis
      unfolding eq by (intro max.mono min.mono order_refl)
  next
    case False
    have low: "max 0.3 (min 0.95 (lengthFactor (length e) * k)) = 0.3" for e :: string
    proof -
      have "lengthFactor (length e) * k \<le> 0"
        using False lengthFactor_nonneg by (simp add: mult_nonneg_nonpos)
      then have "min 0.95 (lengthFactor (length e) * k) \<le> 0.3"
        by (simp add: min_le_iff_disj)
      then show ?thesis by (simp add: max_absorb1)
    qed
    show ?thesis unfolding eq low by simp
  qed
qed

text \<open>
  C8. The classification confidence is the clamp to \<open>[0.3, 0.95]\<close> of
  \<open>lengthFactor\<close> of the length of the diagnostic text, a non-decreasing function, times
  \<open>1 - 0.1 * (candidateCount - 1)\<close>. It always lies in \<open>[0.3, 0.95]\<close>, and for a fixed list
  of candidates it is non-decreasing in the length of the diagnostic text. This holds for
  every list of candidates, the non-empty ones among them.
\<close>

theorem C8_classification_confidence:
  "calculateClassificationConfidence e a =
     max 0.3 (min 0.95 (lengthFactor (length e) * (1 - 0.1 * (real (length a) - 1))))
   \<and> (\<forall>m n. m \<le> n \<longrightarrow> lengthFactor m \<le> lengthFactor n)
   \<and> 0.3 \<le> calculateClassificationConfidence e a
   \<and> calculateClassificationConfidence e a \<le> 0.95
   \<and> (\<forall>e'. length e \<le> length e' \<longrightarrow>
         calculateClassificationConfidence e a \<le> calculateClassificationConfidence e' a)"
  using confidence_clamp [of e a] confidence_bounds [of e a] confidence_mono [of e _ a]
    lengthFactor_mono
  by blast

theorem C8_witness:
  "length (replicate 400 CHR ''x'') \<le> length (replicate 600 CHR ''x'')
   \<and> calculateClassificationConfidence (replicate 400 CHR ''x'') [DATA_ANALYSIS, TESTING] = 0.36
   \<and> calculateClassificationConfidence (replicate 600 CHR ''x'') [DATA_ANALYSIS, TESTING] = 0.54
   \<and> calculateClassificationConfidence (replicate 400 CHR ''x'') [DATA_ANALYSIS, TESTING]
       \<le> calculateClassificationConfidence (replicate 600 CHR ''x'') [DATA_ANALYSIS, TESTING]"
proof -
  have len: "length (replicate 400 CHR ''x'') \<le> length (replicate 600 CHR ''x'')" by simp
  have a: "calculateClassificationConfidence (replicate 400 CHR ''x'') [DATA_ANALYSIS, TESTING] = 0.36"
    by (simp add: calculateClassificationConfidence_def)
  have b: "calculateClassificationConfidence (replicate 600 CHR ''x'') [DATA_ANALYSIS, TESTING] = 0.54"
    by (simp add: calculateClassificationConfidence_def)
  from C8_classification_confidence [of "replicate 400 CHR ''x''" "[DATA_ANALYSIS, TESTING]"] len
  have "calculateClassificationConfidence (replicate 400 CHR ''x'') [DATA_ANALYSIS, TESTING]
       \<le> calculateClassificationConfidence (replicate 600 CHR ''x'') [DATA_ANALYSIS, TESTING]"
    by blast
  with len a b show ?thesis by blast
qed

text \<open>
  C4. For every context the classification has its primary category (the one that
  \<open>detectPrimaryCategory\<close> finds) and a non-empty list of suggested agents; when none of
  the keyword checks selects a specific agent the list is exactly \<open>[GENERAL]\<close>.
\<close>

theorem C4_classification_never_empty:
  "suggestedAgents (classifyProblem ctx) \<noteq> []
   \<and> primaryCategory (classifyProblem ctx)
       = detectPrimaryCategory (orEmpty (errorOutput ctx)) (request ctx)
   \<and> (specificAgents (primaryCategory (classifyProblem ctx))
          (secondaryCategories (classifyProblem ctx)) ctx = []
        \<longrightarrow> suggestedAgents (classifyProblem ctx) = [GENERAL])
   \<and> (specificAgents (primaryCategory (classifyProblem ctx))
          (secondaryCategories (classifyProblem ctx)) ctx \<noteq> []
        \<longrightarrow> suggestedAgents (classifyProblem ctx)
              = specificAgents (primaryCategory (classifyProblem ctx))
                  (secondaryCategories (classifyProblem ctx)) ctx)"
  by (simp add: classifyProblem_def selectSuitableAgents_def Let_def)

theorem C4_witness:
  "specificAgents (primaryCategory (classifyProblem plainContext))
      (secondaryCategories (classifyProblem plainContext)) plainContext = []
   \<and> suggestedAgents (classifyProblem plainContext) = [GENERAL]
   \<and> primaryCategory (classifyProblem plainContext) = LOGIC"
proof -
  have "specificAgents (primaryCategory (classifyProblem plainContext))
      (secondaryCategories (classifyProblem plainContext)) plainContext = []"
    by code_simp
  moreover have "primaryCategory (classifyProblem plainContext) = LOGIC"
    by code_simp
  ultimately show ?thesis
    using C4_classification_never_empty [of plainContext] by simp
qed

subsection \<open>The specialist's loop\<close>
















text \<open>
  C10. For every context, \<^verbatim>\<open>execute\<close> of the general purpose agent returns a result with
  \<open>success = false\<close>, \<open>iterations = 0\<close> and no changes and no modified files; its analysis
  gives no suggestion, its \<^verbatim>\<open>applyFix\<close> returns \<^verbatim>\<open>false\<close>, the loop is not entered and the
  outside world is left as it was.
\<close>

theorem C10_general_agent_never_fixes:
  "ar_success (fst (execute GeneralSpecialistAgent ctx w)) = False
   \<and> iterations (fst (execute GeneralSpecialistAgent ctx w)) = 0
   \<and> ar_changes (fst (execute GeneralSpecialistAgent ctx w)) = []
   \<and> ar_modifiedFiles (fst (execute GeneralSpecialistAgent ctx w)) = []
   \<and> snd (execute GeneralSpecialistAgent ctx w) = ([], w)
   \<and> executeTrace GeneralSpecialistAgent ctx w = []
   \<and> analyzeContext GeneralSpecialistAgent ctx w = Inr []
   \<and> fst (applyFix GeneralSpecialistAgent fix st) = Inr False"
  by (simp add: execute_def executeTrace_def GeneralSpecialistAgent_def newSpecialistAgent_def
      buildResult_def uniq_def)

theorem C10_witness:
  "ar_success (fst (execute GeneralSpecialistAgent plainContext ())) = False
   \<and> iterations (fst (execute GeneralSpecialistAgent plainContext ())) = 0
   \<and> ar_changes (fst (execute GeneralSpecialistAgent plainContext ())) = []
   \<and> ar_modifiedFiles (fst (execute GeneralSpecialistAgent plainContext ())) = []"
  using C10_general_agent_never_fixes [of plainContext "()" lowSuggestion "([], ())"] by simp





subsection \<open>The orchestrator\<close>

lemma returnedResults_append:
  "returnedResults (xs @ ys) = returnedResults xs @ returnedResults ys"
  by (induction xs rule: returnedResults.induct) simp_all

lemma runAgents_attempts:
  "\<exists>new. os_attempts (runAgents agents ctx cands st) = os_attempts st @ new
     \<and> prefix (map fst new) (filter (\<lambda>sp. agents sp \<noteq> None) cands)
     \<and> ((\<forall>a\<in>set new. \<not> attemptSucceeded a)
          \<longrightarrow> map fst new = filter (\<lambda>sp. agents sp \<noteq> None) cands)
     \<and> (\<forall>a\<in>set new. \<exists>ex w0. agents (fst a) = Some ex \<and> snd a = fst (ex ctx w0))"
proof (induction cands arbitrary: st)
  case Nil
  show ?case by simp
next
  case (Cons sp rest)
  show ?case
  proof (cases "agents sp")
    case None
    with Cons.IH [of st] show ?thesis by simp
  next
    case (Some ex)
    define st1 where "st1 = st\<lparr> os_executionPath := os_executionPath st @ [specialtyName sp @ ''(start)''] \<rparr>"
    obtain out w' where call: "ex ctx (os_world st) = (out, w')" by (rule prod.exhaust)
    show ?thesis
    proof (cases out)
      case (Inl msg)
      define st2 where "st2 = st1\<lparr> os_executionPath := os_executionPath st1 @ [specialtyName sp @ ''(error)''],
            os_world := w', os_attempts := os_attempts st1 @ [(sp, Inl msg)] \<rparr>"
      have run: "runAgents agents ctx (sp # rest) st = runAgents agents ctx rest st2"
        using Some call Inl by (simp add: st1_def st2_def Let_def)
      from Cons.IH [of st2] obtain new where new:
        "os_attempts (runAgents agents ctx rest st2) = os_attempts st2 @ new"
        "prefix (map fst new) (filter (\<lambda>sp. agents sp \<noteq> None) rest)"
        "(\<forall>a\<in>set new. \<not> attemptSucceeded a) \<longrightarrow> map fst new = filter (\<lambda>sp. agents sp \<noteq> None) rest"
        "\<forall>a\<in>set new. \<exists>ex w0. agents (fst a) = Some ex \<and> snd a = fst (ex ctx w0)"
        by blast
      have here: "\<exists>ex w0. agents sp = Some ex \<and> Inl msg = fst (ex ctx w0)"
        using Some call Inl by (metis fst_conv)
      show ?thesis
        unfolding run
        by (rule exI [of _ "(sp, Inl msg) # new"])
           (use new Some here in \<open>simp add: st2_def st1_def attemptSucceeded_def\<close>)
    next
      case (Inr r)
      define st2 where "st2 = st1\<lparr> os_result := Some r,
            os_agentsUsed := os_agentsUsed st1 @ [sp],
            os_totalIterations := os_totalIterations st1 + iterations r,
            os_executionPath := os_executionPath st1 @ [specialtyName sp @ ''(end)''],
            os_world := w', os_attempts := os_attempts st1 @ [(sp, Inr r)] \<rparr>"
      have here: "\<exists>ex w0. agents sp = Some ex \<and> Inr r = fst (ex ctx w0)"
        using Some call Inr by (metis fst_conv)
      show ?thesis
      proof (cases "ar_success r")
        case True
        have run: "runAgents agents ctx (sp # rest) st = st2"
          using Some call Inr True by (simp add: st1_def st2_def Let_def)
        show ?thesis
          unfolding run
          by (rule exI [of _ "[(sp, Inr r)]"])
             (use Some here True in \<open>simp add: st2_def st1_def attemptSucceeded_def\<close>)
      next
        case False
        have run: "runAgents agents ctx (sp # rest) st = runAgents agents ctx rest st2"
          using Some call Inr False by (simp add: st1_def st2_def Let_def)
        from Cons.IH [of st2] obtain new where new:
          "os_attempts (runAgents agents ctx rest st2) = os_attempts st2 @ new"
          "prefix (map fst new) (filter (\<lambda>sp. agents sp \<noteq> None) rest)"
          "(\<forall>a\<in>set new. \<not> attemptSucceeded a) \<longrightarrow> map fst new = filter (\<lambda>sp. agents sp \<noteq> None) rest"
          "\<forall>a\<in>set new. \<exists>ex w0. agents (fst a) = Some ex \<and> snd a = fst (ex ctx w0)"
          by blast
        show ?thesis
          unfolding run
          by (rule exI [of _ "(sp, Inr r) # new"])
             (use new Some here False in \<open>simp add: st2_def st1_def attemptSucceeded_def\<close>)
      qed
    qed
  qed
qed

lemma lastReturned_snoc_thrown: "lastReturned (xs @ [(sp, Inl msg)]) = lastReturned xs"
proof -
  have "returnedResults (xs @ [(sp, Inl msg)]) = returnedResults xs"
    by (simp add: returnedResults_append)
  then show ?thesis by (simp only: lastReturned_def)
qed

lemma lastReturned_snoc_returned: "lastReturned (xs @ [(sp, Inr r)]) = Some r"
proof -
  have "returnedResults (xs @ [(sp, Inr r)]) = returnedResults xs @ [(sp, r)]"
    by (simp add: returnedResults_append)
  then show ?thesis
    by (cases "returnedResults xs") (simp_all add: lastReturned_def)
qed

lemma runAgents_sync:
  assumes "os_agentsUsed st = map fst (returnedResults (os_attempts st))"
    and "os_totalIterations st = sum_list (map (\<lambda>p. iterations (snd p)) (returnedResults (os_attempts st)))"
    and "os_result st = lastReturned (os_attempts st)"
    and "\<forall>a\<in>set (os_attempts st). \<not> attemptSucceeded a"
    and "\<not> reportsSuccess (os_result st)"
  shows "os_agentsUsed (runAgents agents ctx cands st)
           = map fst (returnedResults (os_attempts (runAgents agents ctx cands st)))
       \<and> os_totalIterations (runAgents agents ctx cands st)
           = sum_list (map (\<lambda>p. iterations (snd p))
               (returnedResults (os_attempts (runAgents agents ctx cands st))))
       \<and> os_result (runAgents agents ctx cands st)
           = lastReturned (os_attempts (runAgents agents ctx cands st))
       \<and> (\<forall>a\<in>set (butlast (os_attempts (runAgents agents ctx cands st))). \<not> attemptSucceeded a)
       \<and> (reportsSuccess (os_result (runAgents agents ctx cands st))
            \<longleftrightarrow> os_attempts (runAgents agents ctx cands st) \<noteq> []
                \<and> attemptSucceeded (last (os_attempts (runAgents agents ctx cands st))))"
  using assms
proof (induction cands arbitrary: st)
  case Nil
  then show ?case by (auto dest: in_set_butlastD)
next
  case (Cons sp rest)
  show ?case
  proof (cases "agents sp")
    case None
    then have run: "runAgents agents ctx (sp # rest) st = runAgents agents ctx rest st" by simp
    show ?thesis unfolding run by (rule Cons.IH [OF Cons.prems])
  next
    case (Some ex)
    define st1 where "st1 = st\<lparr> os_executionPath := os_executionPath st @ [specialtyName sp @ ''(start)''] \<rparr>"
    obtain out w' where call: "ex ctx (os_world st) = (out, w')" by (rule prod.exhaust)
    show ?thesis
    proof (cases out)
      case (Inl msg)
      define st2 where "st2 = st1\<lparr> os_executionPath := os_executionPath st1 @ [specialtyName sp @ ''(error)''],
            os_world := w', os_attempts := os_attempts st1 @ [(sp, Inl msg)] \<rparr>"
      have run: "runAgents agents ctx (sp # rest) st = runAgents agents ctx rest st2"
        using Some call Inl by (simp add: st1_def st2_def Let_def)
      show ?thesis
        unfolding run
        by (rule Cons.IH)
           (use Cons.prems in \<open>simp_all add: st2_def st1_def returnedResults_append
              lastReturned_snoc_thrown attemptSucceeded_def\<close>)
    next
      case (Inr r)
      define st2 where "st2 = st1\<lparr> os_result := Some r,
            os_agentsUsed := os_agentsUsed st1 @ [sp],
            os_totalIterations := os_totalIterations st1 + iterations r,
            os_executionPath := os_executionPath st1 @ [specialtyName sp @ ''(end)''],
            os_world := w', os_attempts := os_attempts st1 @ [(sp, Inr r)] \<rparr>"
      show ?thesis
      proof (cases "ar_success r")
        case True
        have run: "runAgents agents ctx (sp # rest) st = st2"
          using Some call Inr True by (simp add: st1_def st2_def Let_def)
        show ?thesis
          unfolding run
          using Cons.prems True
          by (simp add: st2_def st1_def returnedResults_append lastReturned_snoc_returned
              attemptSucceeded_def reportsSuccess_def)
      next
        case False
        have run: "runAgents agents ctx (sp # rest) st = runAgents agents ctx rest st2"
          using Some call Inr False by (simp add: st1_def st2_def Let_def)
        show ?thesis
          unfolding run
          by (rule Cons.IH)
             (use Cons.prems False in
               \<open>simp_all add: st2_def st1_def returnedResults_append lastReturned_snoc_returned
                  attemptSucceeded_def reportsSuccess_def\<close>)
      qed
    qed
  qed
qed

text \<open>
  C3, as amended. \<^verbatim>\<open>execute\<close> classifies the problem once, and the calls it makes are to
  the registered agents among the suggested ones, strictly in the order of the list: the
  attempted specialities are a prefix of the registered candidates, no attempt but the last
  reports success, the result has \<open>succeeded\<close> exactly when the last attempt does, and when
  it has not every registered candidate was attempted. Over the calls that returned a result
  the list \<open>agentsUsed\<close> and the sum \<open>totalIterations\<close> accumulate; \<open>changes\<close> and
  \<open>modifiedFiles\<close> are those of the last call that returned, and empty when none did.
\<close>

theorem C3_orchestrator_fallback:
  "problemClassification (fst (orchestratorExecute agents ctx w)) = classifyProblem ctx
   \<and> prefix (map fst (os_attempts (orchestratorRun agents ctx w)))
        (filter (\<lambda>sp. agents sp \<noteq> None) (suggestedAgents (classifyProblem ctx)))
   \<and> (\<forall>a\<in>set (os_attempts (orchestratorRun agents ctx w)).
         \<exists>ex w0. agents (fst a) = Some ex \<and> snd a = fst (ex ctx w0))
   \<and> (\<forall>a\<in>set (butlast (os_attempts (orchestratorRun agents ctx w))). \<not> attemptSucceeded a)
   \<and> (succeeded (fst (orchestratorExecute agents ctx w))
        \<longleftrightarrow> os_attempts (orchestratorRun agents ctx w) \<noteq> []
            \<and> attemptSucceeded (last (os_attempts (orchestratorRun agents ctx w))))
   \<and> (\<not> succeeded (fst (orchestratorExecute agents ctx w))
        \<longrightarrow> map fst (os_attempts (orchestratorRun agents ctx w))
              = filter (\<lambda>sp. agents sp \<noteq> None) (suggestedAgents (classifyProblem ctx)))
   \<and> agentsUsed (fst (orchestratorExecute agents ctx w))
        = map fst (returnedResults (os_attempts (orchestratorRun agents ctx w)))
   \<and> totalIterations (fst (orchestratorExecute agents ctx w))
        = sum_list (map (\<lambda>p. iterations (snd p))
            (returnedResults (os_attempts (orchestratorRun agents ctx w))))
   \<and> m_changes (fst (orchestratorExecute agents ctx w))
        = (case lastReturned (os_attempts (orchestratorRun agents ctx w)) of
             None \<Rightarrow> [] | Some r \<Rightarrow> ar_changes r)
   \<and> m_modifiedFiles (fst (orchestratorExecute agents ctx w))
        = (case lastReturned (os_attempts (orchestratorRun agents ctx w)) of
             None \<Rightarrow> [] | Some r \<Rightarrow> ar_modifiedFiles r)"
proof -
  define cands where "cands = suggestedAgents (classifyProblem ctx)"
  define fin where "fin = runAgents agents ctx cands (orchInit w)"
  have run: "orchestratorRun agents ctx w = fin"
    by (simp add: orchestratorRun_def fin_def cands_def)
  have res: "fst (orchestratorExecute agents ctx w) =
      \<lparr> succeeded = reportsSuccess (os_result fin),
        primaryAgent = (case os_agentsUsed fin of [] \<Rightarrow> GENERAL | sp # _ \<Rightarrow> sp),
        agentsUsed = os_agentsUsed fin,
        totalIterations = os_totalIterations fin,
        m_changes = (case os_result fin of None \<Rightarrow> [] | Some r \<Rightarrow> ar_changes r),
        m_modifiedFiles = (case os_result fin of None \<Rightarrow> [] | Some r \<Rightarrow> ar_modifiedFiles r),
        executionPath = os_executionPath fin,
        problemClassification = classifyProblem ctx \<rparr>"
    by (simp add: orchestratorExecute_def Let_def fin_def cands_def reportsSuccess_def)
  have init:
    "os_agentsUsed (orchInit w) = map fst (returnedResults (os_attempts (orchInit w)))"
    "os_totalIterations (orchInit w)
       = sum_list (map (\<lambda>p. iterations (snd p)) (returnedResults (os_attempts (orchInit w))))"
    "os_result (orchInit w) = lastReturned (os_attempts (orchInit w))"
    "\<forall>a\<in>set (os_attempts (orchInit w)). \<not> attemptSucceeded a"
    "\<not> reportsSuccess (os_result (orchInit w))"
    by (simp_all add: orchInit_def lastReturned_def reportsSuccess_def)
  note sync = runAgents_sync [OF init, of agents ctx cands, folded fin_def]
  from sync have used: "os_agentsUsed fin = map fst (returnedResults (os_attempts fin))"
    and total: "os_totalIterations fin
       = sum_list (map (\<lambda>p. iterations (snd p)) (returnedResults (os_attempts fin)))"
    and result: "os_result fin = lastReturned (os_attempts fin)"
    and early: "\<forall>a\<in>set (butlast (os_attempts fin)). \<not> attemptSucceeded a"
    and flag: "reportsSuccess (os_result fin)
       \<longleftrightarrow> os_attempts fin \<noteq> [] \<and> attemptSucceeded (last (os_attempts fin))"
    by blast+
  from runAgents_attempts [of agents ctx cands "orchInit w", folded fin_def]
  have order: "prefix (map fst (os_attempts fin)) (filter (\<lambda>sp. agents sp \<noteq> None) cands)"
    and every: "(\<forall>a\<in>set (os_attempts fin). \<not> attemptSucceeded a)
       \<longrightarrow> map fst (os_attempts fin) = filter (\<lambda>sp. agents sp \<noteq> None) cands"
    and called: "\<forall>a\<in>set (os_attempts fin). \<exists>ex w0. agents (fst a) = Some ex \<and> snd a = fst (ex ctx w0)"
    by (auto simp: orchInit_def)
  have none: "\<forall>a\<in>set (os_attempts fin). \<not> attemptSucceeded a"
    if ns: "\<not> reportsSuccess (os_result fin)"
  proof
    fix a assume a: "a \<in> set (os_attempts fin)"
    then have ne: "os_attempts fin \<noteq> []" by auto
    then have "os_attempts fin = butlast (os_attempts fin) @ [last (os_attempts fin)]" by simp
    then have "set (os_attempts fin) = set (butlast (os_attempts fin)) \<union> {last (os_attempts fin)}"
      by (metis Un_insert_right list.set(1) list.set(2) set_append sup_bot.right_neutral)
    with a have "a \<in> set (butlast (os_attempts fin)) \<or> a = last (os_attempts fin)" by auto
    with early flag ns ne show "\<not> attemptSucceeded a" by auto
  qed
  have f1: "succeeded (fst (orchestratorExecute agents ctx w)) = reportsSuccess (os_result fin)"
    and f2: "agentsUsed (fst (orchestratorExecute agents ctx w)) = os_agentsUsed fin"
    and f3: "totalIterations (fst (orchestratorExecute agents ctx w)) = os_totalIterations fin"
    and f4: "m_changes (fst (orchestratorExecute agents ctx w))
               = (case os_result fin of None \<Rightarrow> [] | Some r \<Rightarrow> ar_changes r)"
    and f5: "m_modifiedFiles (fst (orchestratorExecute agents ctx w))
               = (case os_result fin of None \<Rightarrow> [] | Some r \<Rightarrow> ar_modifiedFiles r)"
    and f6: "problemClassification (fst (orchestratorExecute agents ctx w)) = classifyProblem ctx"
    by (simp_all add: res)
  show ?thesis
    unfolding run f1 f2 f3 f4 f5 f6 cands_def [symmetric]
  proof (intro conjI)
    show "\<not> reportsSuccess (os_result fin) \<longrightarrow>
        map fst (os_attempts fin) = filter (\<lambda>sp. agents sp \<noteq> None) cands"
      using none every by blast
  qed (use order called early flag used total in \<open>simp_all add: result\<close>)
qed

theorem C3_witness:
  "suggestedAgents (classifyProblem parseTestContext) = [DATA_ANALYSIS, TESTING, ARCHITECTURE]
   \<and> filter (\<lambda>sp. exampleAgents sp \<noteq> None) [DATA_ANALYSIS, TESTING, ARCHITECTURE]
       = [DATA_ANALYSIS, TESTING]
   \<and> map fst (os_attempts (orchestratorRun exampleAgents parseTestContext ()))
       = [DATA_ANALYSIS, TESTING]
   \<and> succeeded (fst (orchestratorExecute exampleAgents parseTestContext ())) = False
   \<and> agentsUsed (fst (orchestratorExecute exampleAgents parseTestContext ()))
       = [DATA_ANALYSIS, TESTING]
   \<and> totalIterations (fst (orchestratorExecute exampleAgents parseTestContext ())) = 5"
proof -
  have c: "suggestedAgents (classifyProblem parseTestContext) = [DATA_ANALYSIS, TESTING, ARCHITECTURE]"
    by code_simp
  have r: "filter (\<lambda>sp. exampleAgents sp \<noteq> None) [DATA_ANALYSIS, TESTING, ARCHITECTURE]
      = [DATA_ANALYSIS, TESTING]"
    by (simp add: exampleAgents_def registerAgent_def)
  have i: "map (\<lambda>p. iterations (snd p))
      (returnedResults (os_attempts (orchestratorRun exampleAgents parseTestContext ()))) = [2, 3]"
    by code_simp
  have u: "map fst (returnedResults (os_attempts (orchestratorRun exampleAgents parseTestContext ())))
      = [DATA_ANALYSIS, TESTING]"
    by code_simp
  have f: "\<not> attemptSucceeded (last (os_attempts (orchestratorRun exampleAgents parseTestContext ())))"
    by code_simp
  note inst = C3_orchestrator_fallback [of exampleAgents parseTestContext "()", unfolded c r]
  from inst f have ns: "\<not> succeeded (fst (orchestratorExecute exampleAgents parseTestContext ()))"
    by blast
  with inst have a: "map fst (os_attempts (orchestratorRun exampleAgents parseTestContext ()))
      = [DATA_ANALYSIS, TESTING]"
    by blast
  from inst u have g: "agentsUsed (fst (orchestratorExecute exampleAgents parseTestContext ()))
      = [DATA_ANALYSIS, TESTING]"
    by simp
  from inst i have t: "totalIterations (fst (orchestratorExecute exampleAgents parseTestContext ())) = 5"
    by simp
  from c r a ns g t show ?thesis by blast
qed

text \<open>
  The claim as stated has the change lists accumulate across the attempted strategies. Two
  agents are attempted and both report failure after applying a fix; the aggregated result
  holds the changes and the files of the second agent only.
\<close>

theorem C3_counterexample:
  "map (\<lambda>p. ar_changes (snd p))
      (returnedResults (os_attempts (orchestratorRun exampleAgents parseTestContext ())))
     = [[''rewrite the parser''], [''update the test'', ''update the test'']]
   \<and> m_changes (fst (orchestratorExecute exampleAgents parseTestContext ()))
       = [''update the test'', ''update the test'']
   \<and> map (\<lambda>p. ar_modifiedFiles (snd p))
      (returnedResults (os_attempts (orchestratorRun exampleAgents parseTestContext ())))
     = [[''parser.ts''], [''parser.test.ts'']]
   \<and> m_modifiedFiles (fst (orchestratorExecute exampleAgents parseTestContext ()))
       = [''parser.test.ts'']"
  by code_simp

subsection \<open>The execution memory\<close>

lemma uniq_set: "set (uniq xs) = set xs"
  by (simp add: uniq_def)







lemma mapSet_fresh: "k \<notin> fst ` set m \<Longrightarrow> mapSet k v m = m @ [(k, v)]"
  by (induction m) auto

lemma fold_mapSet_distinct:
  "distinct (map fst es) \<Longrightarrow> fst ` set es \<inter> fst ` set acc = {} \<Longrightarrow>
     foldl (\<lambda>acc e. mapSet (fst e) (snd e) acc) acc es = acc @ es"
proof (induction es arbitrary: acc)
  case Nil
  show ?case by simp
next
  case (Cons e es)
  from Cons.prems have fresh: "fst e \<notin> fst ` set acc" by auto
  have step: "mapSet (fst e) (snd e) acc = acc @ [e]"
    using mapSet_fresh [OF fresh] by simp
  have "foldl (\<lambda>acc e. mapSet (fst e) (snd e) acc) (acc @ [e]) es = (acc @ [e]) @ es"
    using Cons.prems by (intro Cons.IH) auto
  with step show ?case by simp
qed

lemma pruneMemory_take:
  assumes "distinct (map fst m)"
  shows "pruneMemory m n =
     (if length m \<le> n then m else take n (sort_key (\<lambda>e. - timestamp (snd e)) m))"
proof (cases "length m \<le> n")
  case True
  then show ?thesis by (simp add: pruneMemory_def mapSize_def)
next
  case False
  have "distinct (map fst (sort_key (\<lambda>e. - timestamp (snd e)) m))"
    using assms by (simp add: distinct_map)
  then have "distinct (map fst (take n (sort_key (\<lambda>e. - timestamp (snd e)) m)))"
    by (simp add: take_map [symmetric])
  then have "foldl (\<lambda>acc e. mapSet (fst e) (snd e) acc) [] (take n (sort_key (\<lambda>e. - timestamp (snd e)) m))
      = [] @ take n (sort_key (\<lambda>e. - timestamp (snd e)) m)"
    by (intro fold_mapSet_distinct) simp_all
  with False show ?thesis by (simp add: pruneMemory_def mapSize_def Let_def)
qed

lemma sorted_take_drop:
  assumes "sorted (map f xs)" "x \<in> set (take n xs)" "y \<in> set (drop n xs)"
  shows "f x \<le> f y"
proof -
  have "sorted (map f (take n xs) @ map f (drop n xs))"
    using assms(1) by (simp add: map_append [symmetric] del: map_append)
  with assms(2,3) show ?thesis by (auto simp: sorted_append)
qed

text \<open>
  C7. For every keep count \<open>n\<close> and every memory map (its keys are distinct, as the keys of a
  \<^verbatim>\<open>Map\<close> are), \<^verbatim>\<open>pruneMemory(n)\<close> leaves exactly \<open>min n (size)\<close> entries, all of them
  entries of the map, and the time stamp of every entry it keeps is greater than or equal
  to the time stamp of every entry it removes.
\<close>

theorem C7_prune_keeps_newest:
  assumes "distinct (map fst m)"
  shows "length (pruneMemory m n) = min n (length m)
    \<and> set (pruneMemory m n) \<subseteq> set m
    \<and> set (evicted m n) = set m - set (pruneMemory m n)
    \<and> (\<forall>kept\<in>set (pruneMemory m n). \<forall>gone\<in>set (evicted m n).
          timestamp (snd gone) \<le> timestamp (snd kept))"
proof (cases "length m \<le> n")
  case True
  with assms have "pruneMemory m n = m" by (simp add: pruneMemory_take)
  with True show ?thesis by (simp add: evicted_def)
next
  case False
  define srt where "srt = sort_key (\<lambda>e. - timestamp (snd e)) m"
  have p: "pruneMemory m n = take n srt"
    using assms False by (simp add: pruneMemory_take srt_def)
  have s: "set srt = set m" by (simp add: srt_def)
  have ev: "set (evicted m n) = set m - set (take n srt)"
    by (auto simp: evicted_def p)
  have sub: "set (take n srt) \<subseteq> set m" using s set_take_subset [of n srt] by simp
  have len: "length (take n srt) = min n (length m)" by (simp add: srt_def min.commute)
  have ord: "timestamp (snd gone) \<le> timestamp (snd kept)"
    if k: "kept \<in> set (take n srt)" and g: "gone \<in> set m - set (take n srt)" for kept gone
  proof -
    have "set srt = set (take n srt) \<union> set (drop n srt)"
      by (simp only: set_append [symmetric] append_take_drop_id)
    with g s have "gone \<in> set (drop n srt)" by auto
    moreover have "sorted (map (\<lambda>e. - timestamp (snd e)) srt)"
      unfolding srt_def by (rule sorted_sort_key)
    ultimately have "- timestamp (snd kept) \<le> - timestamp (snd gone)"
      using k by (intro sorted_take_drop [where f = "\<lambda>e. - timestamp (snd e)" and xs = srt and n = n])
    then show ?thesis by simp
  qed
  show ?thesis
    unfolding p ev using len sub ord by blast
qed

theorem C7_witness:
  "distinct (map fst threeRuns)
   \<and> map (\<lambda>e. (fst e, timestamp (snd e))) threeRuns = [(''a'', 30), (''b'', 10), (''c'', 20)]
   \<and> map (\<lambda>e. (fst e, timestamp (snd e))) (pruneMemory threeRuns 2) = [(''a'', 30), (''c'', 20)]
   \<and> map (\<lambda>e. (fst e, timestamp (snd e))) (evicted threeRuns 2) = [(''b'', 10)]
   \<and> length (pruneMemory threeRuns 2) = 2
   \<and> length (pruneMemory threeRuns 7) = 3"
proof -
  have d: "distinct (map fst threeRuns)" by code_simp
  have 1: "map (\<lambda>e. (fst e, timestamp (snd e))) threeRuns = [(''a'', 30), (''b'', 10), (''c'', 20)]"
    by code_simp
  have 2: "map (\<lambda>e. (fst e, timestamp (snd e))) (pruneMemory threeRuns 2) = [(''a'', 30), (''c'', 20)]"
    by code_simp
  have 3: "map (\<lambda>e. (fst e, timestamp (snd e))) (evicted threeRuns 2) = [(''b'', 10)]"
    by code_simp
  have 4: "length threeRuns = 3" by code_simp
  show ?thesis
    using C7_prune_keeps_newest [OF d, of 2] C7_prune_keeps_newest [OF d, of 7] d 1 2 3 4
    by simp
qed

subsection \<open>The protocol\<close>

lemma loopIterations_rule:
  assumes stop: "\<And>st w. \<not> currentIteration st < cfg_maxIterations cfg \<Longrightarrow> P st w (Inr False, st, w)"
    and noscript: "\<And>st w. currentIteration st < cfg_maxIterations cfg \<Longrightarrow>
      verificationScript st = None \<Longrightarrow>
      P st w (Inl ''Cannot set properties of undefined'',
              st\<lparr> currentIteration := currentIteration st + 1 \<rparr>, w)"
    and passed: "\<And>st w script outcome w1. currentIteration st < cfg_maxIterations cfg \<Longrightarrow>
      verificationScript st = Some script \<Longrightarrow> execSync env script w = (outcome, w1) \<Longrightarrow>
      isVerificationPassed (executeVerificationScript script outcome) \<Longrightarrow>
      P st w (Inr True,
              st\<lparr> currentIteration := currentIteration st + 1,
                   verificationScript := Some (executeVerificationScript script outcome) \<rparr>, w1)"
    and budget: "\<And>st w script outcome w1. currentIteration st < cfg_maxIterations cfg \<Longrightarrow>
      verificationScript st = Some script \<Longrightarrow> execSync env script w = (outcome, w1) \<Longrightarrow>
      \<not> isVerificationPassed (executeVerificationScript script outcome) \<Longrightarrow>
      currentIteration st + 1 \<ge> cfg_maxIterations cfg \<Longrightarrow>
      P st w (Inr False,
              st\<lparr> currentIteration := currentIteration st + 1,
                   verificationScript := Some (executeVerificationScript script outcome) \<rparr>, w1)"
    and unfixed: "\<And>st w script outcome w1 res w2. currentIteration st < cfg_maxIterations cfg \<Longrightarrow>
      verificationScript st = Some script \<Longrightarrow> execSync env script w = (outcome, w1) \<Longrightarrow>
      \<not> isVerificationPassed (executeVerificationScript script outcome) \<Longrightarrow>
      currentIteration st + 1 < cfg_maxIterations cfg \<Longrightarrow>
      executeIteration env (extractErrorInfo (executeVerificationScript script outcome))
        (codebase ctx) (currentIteration st + 1) w1 = (res, w2) \<Longrightarrow>
      \<not> success res \<Longrightarrow>
      P st w (Inr False,
              st\<lparr> currentIteration := currentIteration st + 1,
                   verificationScript := Some (executeVerificationScript script outcome),
                   iterationHistory := iterationHistory st @ [res] \<rparr>, w2)"
    and again: "\<And>st w script outcome w1 res w2. currentIteration st < cfg_maxIterations cfg \<Longrightarrow>
      verificationScript st = Some script \<Longrightarrow> execSync env script w = (outcome, w1) \<Longrightarrow>
      \<not> isVerificationPassed (executeVerificationScript script outcome) \<Longrightarrow>
      currentIteration st + 1 < cfg_maxIterations cfg \<Longrightarrow>
      executeIteration env (extractErrorInfo (executeVerificationScript script outcome))
        (codebase ctx) (currentIteration st + 1) w1 = (res, w2) \<Longrightarrow>
      success res \<Longrightarrow>
      P (st\<lparr> currentIteration := currentIteration st + 1,
              verificationScript := Some (executeVerificationScript script outcome),
              iterationHistory := iterationHistory st @ [res] \<rparr>) w2
        (loopIterations cfg env ctx
           (st\<lparr> currentIteration := currentIteration st + 1,
                verificationScript := Some (executeVerificationScript script outcome),
                iterationHistory := iterationHistory st @ [res] \<rparr>) w2) \<Longrightarrow>
      P st w (loopIterations cfg env ctx
           (st\<lparr> currentIteration := currentIteration st + 1,
                verificationScript := Some (executeVerificationScript script outcome),
                iterationHistory := iterationHistory st @ [res] \<rparr>) w2)"
  shows "P st w (loopIterations cfg env ctx st w)"
proof (induction "nat (cfg_maxIterations cfg - currentIteration st)" arbitrary: st w rule: less_induct)
  case less
  show ?case
  proof (cases "currentIteration st < cfg_maxIterations cfg")
    case False
    then have "loopIterations cfg env ctx st w = (Inr False, st, w)"
      by (simp add: loopIterations.simps [of cfg env ctx st w])
    with stop [OF False, of w] show ?thesis by simp
  next
    case lt: True
    show ?thesis
    proof (cases "verificationScript st")
      case None
      with lt have "loopIterations cfg env ctx st w =
          (Inl ''Cannot set properties of undefined'', st\<lparr> currentIteration := currentIteration st + 1 \<rparr>, w)"
        by (simp add: loopIterations.simps [of cfg env ctx st w] Let_def)
      with noscript [OF lt None, of w] show ?thesis by simp
    next
      case (Some script)
      obtain outcome w1 where ex: "execSync env script w = (outcome, w1)" by (rule prod.exhaust)
      define executed where "executed = executeVerificationScript script outcome"
      define st2 where "st2 = st\<lparr> currentIteration := currentIteration st + 1,
                   verificationScript := Some executed \<rparr>"
      show ?thesis
      proof (cases "isVerificationPassed executed")
        case True
        with lt Some ex have "loopIterations cfg env ctx st w = (Inr True, st2, w1)"
          by (simp add: loopIterations.simps [of cfg env ctx st w] Let_def st2_def executed_def)
        with passed [OF lt Some ex True [unfolded executed_def]] show ?thesis
          by (simp add: st2_def executed_def)
      next
        case np: False
        show ?thesis
        proof (cases "currentIteration st + 1 \<ge> cfg_maxIterations cfg")
          case True
          with lt Some ex np have "loopIterations cfg env ctx st w = (Inr False, st2, w1)"
            by (simp add: loopIterations.simps [of cfg env ctx st w] Let_def st2_def executed_def)
          with budget [OF lt Some ex np [unfolded executed_def] True] show ?thesis
            by (simp add: st2_def executed_def)
        next
          case False
          then have more: "currentIteration st + 1 < cfg_maxIterations cfg" by simp
          obtain res w2 where it: "executeIteration env (extractErrorInfo executed)
              (codebase ctx) (currentIteration st + 1) w1 = (res, w2)" by (rule prod.exhaust)
          define st3 where "st3 = st\<lparr> currentIteration := currentIteration st + 1,
                   verificationScript := Some executed,
                   iterationHistory := iterationHistory st @ [res] \<rparr>"
          show ?thesis
          proof (cases "success res")
            case False
            with lt Some ex np more it have "loopIterations cfg env ctx st w = (Inr False, st3, w2)"
              by (simp add: loopIterations.simps [of cfg env ctx st w] Let_def st3_def executed_def)
            with unfixed [OF lt Some ex np [unfolded executed_def] more it [unfolded executed_def] False]
            show ?thesis by (simp add: st3_def executed_def)
          next
            case True
            with lt Some ex np more it
            have eq: "loopIterations cfg env ctx st w = loopIterations cfg env ctx st3 w2"
              by (simp add: loopIterations.simps [of cfg env ctx st w] Let_def st3_def executed_def)
            have "nat (cfg_maxIterations cfg - currentIteration st3)
                < nat (cfg_maxIterations cfg - currentIteration st)"
              using lt by (simp add: st3_def)
            then have "P st3 w2 (loopIterations cfg env ctx st3 w2)" by (rule less.hyps)
            with again [OF lt Some ex np [unfolded executed_def] more it [unfolded executed_def] True]
            show ?thesis unfolding eq by (simp add: st3_def executed_def)
          qed
        qed
      qed
    qed
  qed
qed

lemma loopIterations_returns:
  "verificationScript st \<noteq> None \<longrightarrow>
     (\<exists>vp. fst (loopIterations cfg env ctx st w) = Inr vp)
     \<and> verificationScript (fst (snd (loopIterations cfg env ctx st w))) \<noteq> None"
  by (rule loopIterations_rule [where P = "\<lambda>st w r. verificationScript st \<noteq> None \<longrightarrow>
        (\<exists>vp. fst r = Inr vp) \<and> verificationScript (fst (snd r)) \<noteq> None"])
     auto

lemma executeIteration_iteration: "iteration (fst (executeIteration env e c i w)) = i"
  by (simp add: executeIteration_def Let_def split: list.splits prod.splits)

lemma executeIteration_success:
  "generateFixSuggestions env e c \<noteq> [] \<Longrightarrow> \<forall>fix w'. fst (engineApplyFix env fix w') \<Longrightarrow>
     success (fst (executeIteration env e c i w))"
  by (auto simp add: executeIteration_def Let_def split: list.splits prod.splits)
     (metis fst_conv)

lemma loopIterations_failing:
  assumes fails: "\<forall>script w'. \<exists>err. fst (execSync env script w') = Inl err"
  shows "verificationScript st \<noteq> None \<longrightarrow>
     fst (loopIterations cfg env ctx st w) = Inr False
     \<and> exhausts cfg env ctx st (fst (snd (loopIterations cfg env ctx st w)))"
proof (rule loopIterations_rule [where P = "\<lambda>st w r. verificationScript st \<noteq> None \<longrightarrow>
        fst r = Inr False \<and> exhausts cfg env ctx st (fst (snd r))"], goal_cases)
  case (1 st w)
  then show ?case by (simp add: exhausts_def)
next
  case (2 st w)
  then show ?case by simp
next
  case (3 st w script outcome w1)
  from fails obtain err where "fst (execSync env script w) = Inl err" by blast
  with 3 have "outcome = Inl err" by simp
  with 3 show ?case
    by (simp add: isVerificationPassed_def executeVerificationScript_def split: option.splits if_splits)
next
  case (4 st w script outcome w1)
  then show ?case by (simp add: exhausts_def)
next
  case (5 st w script outcome w1 res w2)
  from 5(6) have "iteration res = currentIteration st + 1"
    using executeIteration_iteration by (metis fst_conv)
  moreover from 5(6) have "\<exists>e i w0. res = fst (executeIteration env e (codebase ctx) i w0)"
    by (metis fst_conv)
  ultimately show ?case using 5 by (simp add: exhausts_def)
next
  case (6 st w script outcome w1 res w2)
  define st3 where "st3 = st\<lparr> currentIteration := currentIteration st + 1,
              verificationScript := Some (executeVerificationScript script outcome),
              iterationHistory := iterationHistory st @ [res] \<rparr>"
  define st' where "st' = fst (snd (loopIterations cfg env ctx st3 w2))"
  from 6(6) have itr: "iteration res = currentIteration st + 1"
    using executeIteration_iteration by (metis fst_conv)
  from 6(8) have r: "fst (loopIterations cfg env ctx st3 w2) = Inr False" and e: "exhausts cfg env ctx st3 st'"
    by (simp_all add: st3_def st'_def)
  from e 6(5) obtain new where new:
    "currentIteration st3 < currentIteration st'" "currentIteration st' \<le> cfg_maxIterations cfg"
    "iterationHistory st' = iterationHistory st3 @ new"
    "map iteration new = [currentIteration st3 + 1 .. currentIteration st3 + int (length new)]"
    "list_all (\<lambda>r. \<exists>e i w0. r = fst (executeIteration env e (codebase ctx) i w0)) new"
    "(currentIteration st' = cfg_maxIterations cfg
        \<and> int (length new) = cfg_maxIterations cfg - 1 - currentIteration st3
        \<and> list_all success new)
      \<or> (currentIteration st' < cfg_maxIterations cfg
          \<and> int (length new) = currentIteration st' - currentIteration st3
          \<and> new \<noteq> [] \<and> \<not> success (last new) \<and> list_all success (butlast new))"
    by (auto simp: exhausts_def st3_def)
  have c3: "currentIteration st3 = currentIteration st + 1" and h3: "iterationHistory st3 = iterationHistory st @ [res]"
    by (simp_all add: st3_def)
  have idx: "map iteration (res # new) = [currentIteration st + 1 .. currentIteration st + int (length (res # new))]"
  proof -
    define k where "k = currentIteration st"
    have e: "k + int (length (res # new)) = k + 1 + int (length new)" by simp
    have le: "k + 1 \<le> k + 1 + int (length new)" by simp
    have up: "[k + 1 .. k + 1 + int (length new)] = (k + 1) # [k + 1 + 1 .. k + 1 + int (length new)]"
      by (rule upto_rec1 [OF le])
    have tl: "map iteration new = [k + 1 + 1 .. k + 1 + int (length new)]"
      using new(4) by (simp only: c3 k_def)
    have hd: "iteration res = k + 1" using itr by (simp only: k_def)
    have "map iteration (res # new) = [k + 1 .. k + int (length (res # new))]"
      unfolding e up by (simp only: list.map hd tl)
    then show ?thesis by (simp only: k_def)
  qed
  from 6(6) have made: "\<exists>e i w0. res = fst (executeIteration env e (codebase ctx) i w0)"
    by (metis fst_conv)
  have "exhausts cfg env ctx st st'"
    unfolding exhausts_def
    using 6(1) new(1,2,3,5,6) c3 h3 idx 6(7) made
    by (auto intro!: exI [of _ "res # new"])
  with r show ?case by (simp add: st3_def st'_def)
qed

lemma protocolExecute_failing:
  assumes probe: "createVerificationScript env (rc_request ctx) (codebase ctx) w = (Inr script, w1)"
    and fails: "\<forall>s w'. \<exists>err. fst (execSync env s w') = Inl err"
  shows "\<exists>st'. fst (protocolExecute cfg env ctx elapsed w)
            = st'\<lparr> ps_succeeded := False, phase := COMPLETION, completed := True, elapsedTime := elapsed \<rparr>
          \<and> failureError st' = None
          \<and> (\<exists>st0. currentIteration st0 = 0 \<and> iterationHistory st0 = []
                 \<and> exhausts cfg env ctx st0 st')"
proof -
  define st1 where "st1 = initializeState\<lparr> phase := PROBE, verificationScript := Some script \<rparr>"
  define st2 where "st2 = st1\<lparr> phase := LOOP \<rparr>"
  define r where "r = loopIterations cfg env ctx st2 w1"
  have pr: "executeProbePhase env ctx initializeState w = (None, st1, w1)"
    using probe by (simp add: executeProbePhase_def st1_def Let_def)
  have sc: "verificationScript st2 \<noteq> None" by (simp add: st2_def st1_def)
  from loopIterations_failing [OF fails, of st2 cfg ctx w1] sc
  have f: "fst r = Inr False" and e: "exhausts cfg env ctx st2 (fst (snd r))"
    by (simp_all add: r_def)
  obtain st' w' where rr: "r = (Inr False, st', w')"
    using f by (metis fst_conv prod.exhaust)
  have lp: "executeLoopPhase cfg env ctx st1 w1 = (None, st'\<lparr> ps_succeeded := False \<rparr>, w')"
    using rr by (simp add: executeLoopPhase_def st2_def [symmetric] r_def [symmetric])
  have fe: "failureError st' = None \<and> (\<exists>st0. currentIteration st0 = 0 \<and> iterationHistory st0 = []
                 \<and> exhausts cfg env ctx st0 st')"
  proof -
    have "failureError (fst (snd (loopIterations cfg env ctx st2 w1))) = failureError st2"
      by (rule loopIterations_rule [where P = "\<lambda>st w r. failureError (fst (snd r)) = failureError st"])
         simp_all
    then have "failureError (fst (snd r)) = failureError st2" by (simp only: r_def)
    then have 1: "failureError st' = None"
      using rr by (simp add: st2_def st1_def initializeState_def)
    from e rr have 2: "exhausts cfg env ctx st2 st'" by simp
    have 3: "currentIteration st2 = 0 \<and> iterationHistory st2 = []"
      by (simp add: st2_def st1_def initializeState_def)
    from 1 2 3 show ?thesis by blast
  qed
  have "fst (protocolExecute cfg env ctx elapsed w)
      = st'\<lparr> ps_succeeded := False, phase := COMPLETION, completed := True, elapsedTime := elapsed \<rparr>"
    using pr lp
    by (simp add: protocolExecute_def executeCompletionPhase_def Let_def split: option.splits)
  with fe show ?thesis by blast
qed

text \<open>
  C1, as amended. Let the probe phase have created the script, let every run of the script
  fail, and let the budget be at least 1. Then the protocol run ends in the completion
  phase with \<open>succeeded = false\<close>, without an error, at an iteration from 1 to
  \<open>maxIterations\<close>, and its records are numbered 1, 2, ... . Either the counter equals
  \<open>maxIterations\<close> and exactly \<open>maxIterations - 1\<close> records were appended, all of them
  successful (the last iteration verifies, finds the budget reached and applies no fix), or
  the loop stopped below the budget at the first fix iteration that reported failure, with
  as many records as iterations. When the engine always has a suggestion and always applies
  it, the first case holds.
\<close>

theorem C1_budget_exhaustion:
  assumes probe: "createVerificationScript env (rc_request ctx) (codebase ctx) w = (Inr script, w1)"
    and fails: "\<forall>s w'. \<exists>err. fst (execSync env s w') = Inl err"
    and budget: "1 \<le> cfg_maxIterations cfg"
    and run: "protocolExecute cfg env ctx elapsed w = (final, w')"
  shows "ps_succeeded final = False \<and> completed final \<and> phase final = COMPLETION
    \<and> failureError final = None
    \<and> 1 \<le> currentIteration final \<and> currentIteration final \<le> cfg_maxIterations cfg
    \<and> map iteration (iterationHistory final) = [1 .. int (length (iterationHistory final))]
    \<and> ((currentIteration final = cfg_maxIterations cfg
          \<and> int (length (iterationHistory final)) = cfg_maxIterations cfg - 1
          \<and> list_all success (iterationHistory final))
        \<or> (currentIteration final < cfg_maxIterations cfg
            \<and> int (length (iterationHistory final)) = currentIteration final
            \<and> \<not> success (last (iterationHistory final))
            \<and> list_all success (butlast (iterationHistory final))))
    \<and> ((\<forall>e c. generateFixSuggestions env e c \<noteq> []) \<and> (\<forall>fix w0. fst (engineApplyFix env fix w0))
          \<longrightarrow> currentIteration final = cfg_maxIterations cfg
              \<and> int (length (iterationHistory final)) = cfg_maxIterations cfg - 1)"
proof -
  from protocolExecute_failing [OF probe fails, of cfg elapsed] run
  obtain st' st0 where fin: "final = st'\<lparr> ps_succeeded := False, phase := COMPLETION, completed := True,
        elapsedTime := elapsed \<rparr>"
    and fe: "failureError st' = None"
    and st0: "currentIteration st0 = 0" "iterationHistory st0 = []"
    and ex: "exhausts cfg env ctx st0 st'"
    by auto
  from ex budget st0 obtain new where new:
    "0 < currentIteration st'" "currentIteration st' \<le> cfg_maxIterations cfg"
    "iterationHistory st' = new"
    "map iteration new = [1 .. int (length new)]"
    "list_all (\<lambda>r. \<exists>e i w0. r = fst (executeIteration env e (codebase ctx) i w0)) new"
    "(currentIteration st' = cfg_maxIterations cfg
        \<and> int (length new) = cfg_maxIterations cfg - 1 \<and> list_all success new)
      \<or> (currentIteration st' < cfg_maxIterations cfg
          \<and> int (length new) = currentIteration st'
          \<and> new \<noteq> [] \<and> \<not> success (last new) \<and> list_all success (butlast new))"
    by (auto simp: exhausts_def)
  have always: "currentIteration st' = cfg_maxIterations cfg \<and> int (length new) = cfg_maxIterations cfg - 1"
    if ok: "(\<forall>e c. generateFixSuggestions env e c \<noteq> []) \<and> (\<forall>fix w0. fst (engineApplyFix env fix w0))"
  proof -
    have "success x" if "x \<in> set new" for x
    proof -
      from new(5) that obtain e i w0 where "x = fst (executeIteration env e (codebase ctx) i w0)"
        by (auto simp: list_all_iff)
      with ok show ?thesis by (simp add: executeIteration_success)
    qed
    then have "list_all success new" by (simp add: list_all_iff)
    then have "new \<noteq> [] \<Longrightarrow> success (last new)"
      by (simp add: list_all_iff)
    with new(6) show ?thesis by blast
  qed
  show ?thesis
    unfolding fin using fe new always by auto
qed

theorem C1_witness:
  "createVerificationScript alwaysFailingEnv (rc_request failingRequest) (codebase failingRequest) ()
     = (Inr sampleScript, ())
   \<and> fst (execSync alwaysFailingEnv sampleScript ()) = Inl exitOneError
   \<and> cfg_maxIterations defaultConfig = 5
   \<and> ps_succeeded (fst (protocolExecute defaultConfig alwaysFailingEnv failingRequest 0 ())) = False
   \<and> currentIteration (fst (protocolExecute defaultConfig alwaysFailingEnv failingRequest 0 ())) = 5
   \<and> map iteration (iterationHistory
         (fst (protocolExecute defaultConfig alwaysFailingEnv failingRequest 0 ()))) = [1, 2, 3, 4]"
proof -
  have probe: "createVerificationScript alwaysFailingEnv (rc_request failingRequest)
      (codebase failingRequest) () = (Inr sampleScript, ())"
    by (simp add: alwaysFailingEnv_def)
  have fails: "\<forall>s w'. \<exists>err. fst (execSync alwaysFailingEnv s w') = Inl err"
    by (simp add: alwaysFailingEnv_def)
  have one: "fst (execSync alwaysFailingEnv sampleScript ()) = Inl exitOneError"
    by (simp add: alwaysFailingEnv_def)
  have budget: "1 \<le> cfg_maxIterations defaultConfig" and five: "cfg_maxIterations defaultConfig = 5"
    by (simp_all add: defaultConfig_def)
  have run: "protocolExecute defaultConfig alwaysFailingEnv failingRequest 0 ()
      = (fst (protocolExecute defaultConfig alwaysFailingEnv failingRequest 0 ()),
         snd (protocolExecute defaultConfig alwaysFailingEnv failingRequest 0 ()))"
    by (rule surjective_pairing)
  have ok: "(\<forall>e c. generateFixSuggestions alwaysFailingEnv e c \<noteq> [])
      \<and> (\<forall>fix w0. fst (engineApplyFix alwaysFailingEnv fix w0))"
    by (simp add: alwaysFailingEnv_def)
  from C1_budget_exhaustion [OF probe fails budget run] ok five
  have "ps_succeeded (fst (protocolExecute defaultConfig alwaysFailingEnv failingRequest 0 ())) = False
    \<and> currentIteration (fst (protocolExecute defaultConfig alwaysFailingEnv failingRequest 0 ())) = 5
    \<and> int (length (iterationHistory
         (fst (protocolExecute defaultConfig alwaysFailingEnv failingRequest 0 ())))) = 4
    \<and> map iteration (iterationHistory
         (fst (protocolExecute defaultConfig alwaysFailingEnv failingRequest 0 ())))
       = [1 .. int (length (iterationHistory
           (fst (protocolExecute defaultConfig alwaysFailingEnv failingRequest 0 ()))))]"
    by simp
  moreover have "[1 .. 4] = [1, 2, 3, 4 :: int]" by code_simp
  ultimately show ?thesis using probe one five by simp
qed

text \<open>
  The claim as stated has the run end at \<open>maxIterations\<close> with \<open>maxIterations\<close> records.
  With a budget of 5 and a script that exits with code 1 on every run, an engine that
  applies a fix in every iteration leaves 4 records at iteration 5, and an engine that has no
  suggestion ends the run at iteration 1.
\<close>

theorem C1_counterexample:
  "cfg_maxIterations defaultConfig = 5
   \<and> currentIteration (fst (protocolExecute defaultConfig alwaysFailingEnv failingRequest 0 ())) = 5
   \<and> length (iterationHistory
        (fst (protocolExecute defaultConfig alwaysFailingEnv failingRequest 0 ()))) = 4
   \<and> ps_succeeded (fst (protocolExecute defaultConfig alwaysFailingEnv failingRequest 0 ())) = False
   \<and> currentIteration (fst (protocolExecute defaultConfig noSuggestionEnv failingRequest 0 ())) = 1
   \<and> length (iterationHistory
        (fst (protocolExecute defaultConfig noSuggestionEnv failingRequest 0 ()))) = 1"
  by code_simp

text \<open>
  C2, as amended. The outcome of a check counts as passed exactly when the recorded exit
  code is 0, which is exactly when the process returned normally. An error of the process
  (a non-zero exit, or a timeout, where the status is absent and the code recorded is 1) is
  reported as a failed outcome: the output is the captured standard output; the diagnostic
  text is the captured standard error when that is not empty, and the message of the error
  otherwise. No error is thrown to the caller: on a state that holds a script the loop
  of the protocol always returns.
\<close>

theorem C2_failure_reported_not_thrown:
  "(isVerificationPassed (executeVerificationScript script outcome)
      \<longleftrightarrow> exitCode (executeVerificationScript script outcome) = Some 0)
   \<and> isVerificationPassed (executeVerificationScript script (Inr out))
   \<and> \<not> isVerificationPassed (executeVerificationScript script (Inl err))
   \<and> exitCode (executeVerificationScript script (Inl err))
       = Some (case status err of None \<Rightarrow> 1 | Some n \<Rightarrow> if n = 0 then 1 else n)
   \<and> vs_output (executeVerificationScript script (Inl err)) = Some (orEmpty (stdout err))
   \<and> (stderr err \<noteq> None \<and> stderr err \<noteq> Some []
        \<longrightarrow> vs_errorOutput (executeVerificationScript script (Inl err)) = stderr err
            \<and> extractErrorInfo (executeVerificationScript script (Inl err)) = orEmpty (stderr err))
   \<and> (stderr err = None \<or> stderr err = Some []
        \<longrightarrow> vs_errorOutput (executeVerificationScript script (Inl err))
              = Some (orEmpty (message err)))
   \<and> (verificationScript st \<noteq> None
        \<longrightarrow> (\<exists>verificationPassed. fst (loopIterations cfg env ctx st w) = Inr verificationPassed))"
proof -
  have "verificationScript st \<noteq> None
        \<longrightarrow> (\<exists>verificationPassed. fst (loopIterations cfg env ctx st w) = Inr verificationPassed)"
    using loopIterations_returns [of st cfg env ctx w] by blast
  moreover have "isVerificationPassed (executeVerificationScript script outcome)
      \<longleftrightarrow> exitCode (executeVerificationScript script outcome) = Some 0"
    by (simp add: isVerificationPassed_def)
  moreover have "exitCode (executeVerificationScript script (Inl err)) \<noteq> Some 0"
    by (simp add: executeVerificationScript_def split: option.splits)
  ultimately show ?thesis
    by (auto simp: isVerificationPassed_def executeVerificationScript_def extractErrorInfo_def
        orElse_def orEmpty_def split: option.splits)
qed

theorem C2_witness:
  "stderr exitOneError = Some ''Tests failed''
   \<and> exitCode (executeVerificationScript sampleScript (Inl exitOneError)) = Some 1
   \<and> isVerificationPassed (executeVerificationScript sampleScript (Inl exitOneError)) = False
   \<and> vs_output (executeVerificationScript sampleScript (Inl exitOneError)) = Some ''Running tests...''
   \<and> vs_errorOutput (executeVerificationScript sampleScript (Inl exitOneError)) = Some ''Tests failed''
   \<and> extractErrorInfo (executeVerificationScript sampleScript (Inl exitOneError)) = ''Tests failed''
   \<and> exitCode (executeVerificationScript sampleScript (Inl timeoutError)) = Some 1
   \<and> isVerificationPassed (executeVerificationScript sampleScript (Inl timeoutError)) = False
   \<and> isVerificationPassed (executeVerificationScript sampleScript (Inr ''ok'')) = True"
proof -
  have s: "stderr exitOneError = Some ''Tests failed''" "stdout exitOneError = Some ''Running tests...''"
    "status exitOneError = Some 1" "status timeoutError = None"
    by (simp_all add: exitOneError_def timeoutError_def)
  show ?thesis
    using C2_failure_reported_not_thrown [of sampleScript "Inl exitOneError" "''ok''" exitOneError
        "initializeState\<lparr> verificationScript := Some sampleScript \<rparr>" defaultConfig
        alwaysFailingEnv failingRequest "()"]
      C2_failure_reported_not_thrown [of sampleScript "Inl timeoutError" "''ok''" timeoutError
        "initializeState\<lparr> verificationScript := Some sampleScript \<rparr>" defaultConfig
        alwaysFailingEnv failingRequest "()"] s
    by (simp add: orEmpty_def)
qed

text \<open>
  The claim as stated has the captured output as the diagnostic text of every failure. A run
  killed at the timeout before it has written anything has no captured output; its
  diagnostic text is the message of the error.
\<close>

theorem C2_counterexample:
  "stdout timeoutError = Some []
   \<and> stderr timeoutError = Some []
   \<and> vs_errorOutput (executeVerificationScript sampleScript (Inl timeoutError))
       = Some ''spawnSync /bin/sh ETIMEDOUT''
   \<and> extractErrorInfo (executeVerificationScript sampleScript (Inl timeoutError))
       = ''spawnSync /bin/sh ETIMEDOUT''"
  by code_simp

end
